theory Spec2Isabelle
  imports Main "HOL-Library.Word"
begin

unbundle bit_operations_syntax

section \<open>LBBS I/O transformations (bbs/io.c): data model\<close>

text \<open>
  Pointers are addresses; \<open>NULL\<close> is address 0. The transformation kinds are the
  enumerators of \<open>enum bbs_io_transform_type\<close> that io.c names. A direction is the bit
  mask of \<open>enum bbs_io_transform_dir\<close>.
\<close>

type_synonym ptr = nat

abbreviation NULL :: ptr where
  "NULL \<equiv> 0"

datatype bbs_io_transform_type =
  TRANSFORM_TLS_ENCRYPTION
  | TRANSFORM_DEFLATE_COMPRESSION
  | TRANSFORM_SESSION_LOGGING

type_synonym bbs_io_transform_dir = "32 word"

text \<open>
  \<open>struct bbs_io_transformer\<close>, field \<open>f\<close> written \<open>t_f\<close> as in the C expression
  \<open>t->f\<close>. The setup hook \<open>setup(rfd, wfd, dir, &data, arg)\<close> is a function of the two
  file descriptors, the direction and the argument; it yields its status, the private
  data it stored through \<open>data\<close> (\<open>NULL\<close> if it stored none) and the two descriptors as
  it left them. The optional query hook reads the slot's private data, the query code and
  the caller's data pointer. The cleanup hook returns nothing: it is kept as its code
  address, and every call of it is recorded (see \<open>cleanup_calls\<close> below).
\<close>

type_synonym setup_hook = "int \<Rightarrow> int \<Rightarrow> bbs_io_transform_dir \<Rightarrow> ptr \<Rightarrow> int \<times> ptr \<times> int \<times> int"
type_synonym query_hook = "ptr \<Rightarrow> int \<Rightarrow> ptr \<Rightarrow> int"

record bbs_io_transformer =
  t_name :: string
  t_type :: bbs_io_transform_type
  t_dir :: bbs_io_transform_dir
  t_setup :: setup_hook
  t_query :: "query_hook option"
  t_cleanup :: ptr
  t_module :: ptr

section \<open>String comparison of the C library\<close>

text \<open>
  \<open>strcmp\<close> and \<open>strcasecmp\<close> return zero for equal strings and a value whose sign is
  that of the first differing byte pair otherwise; \<open>strcasecmp\<close> compares the bytes after
  \<open>tolower\<close> (C locale: only \<open>A\<close>..\<open>Z\<close> change).
\<close>

definition tolower :: "char \<Rightarrow> char" where
  "tolower c =
     (let n = (of_char c :: nat) in if 65 \<le> n \<and> n \<le> 90 then char_of (n + 32) else c)"

fun strcmp :: "string \<Rightarrow> string \<Rightarrow> int" where
  "strcmp [] [] = 0"
| "strcmp [] (b # bs) = - 1"
| "strcmp (a # as) [] = 1"
| "strcmp (a # as) (b # bs) =
     (if a = b then strcmp as bs
      else if (of_char a :: nat) < of_char b then - 1 else 1)"

fun strcasecmp :: "string \<Rightarrow> string \<Rightarrow> int" where
  "strcasecmp [] [] = 0"
| "strcasecmp [] (b # bs) = - 1"
| "strcasecmp (a # as) [] = 1"
| "strcasecmp (a # as) (b # bs) =
     (if tolower a = tolower b then strcasecmp as bs
      else if (of_char (tolower a) :: nat) < of_char (tolower b) then - 1 else 1)"

text \<open>Two names are the same up to letter case.\<close>

definition same_name_ci :: "string \<Rightarrow> string \<Rightarrow> bool" where
  "same_name_ci a b \<longleftrightarrow> map tolower a = map tolower b"

section \<open>Transformer registry\<close>

text \<open>
  The list \<open>transformers\<close> in insertion order (\<open>RWLIST_INSERT_TAIL\<close>). A traversal that
  breaks at the first match is \<open>find\<close>; \<open>RWLIST_REMOVE_CURRENT\<close> followed by \<open>break\<close>
  removes the first match.
\<close>

fun remove_first :: "('a \<Rightarrow> bool) \<Rightarrow> 'a list \<Rightarrow> 'a list" where
  "remove_first P [] = []"
| "remove_first P (x # xs) = (if P x then xs else x # remove_first P xs)"

text \<open>
  \<open>__bbs_io_transformer_register\<close>. \<open>alloc_ok\<close> tells whether \<open>calloc\<close> returned memory.
  The result is the return value and the list afterwards.
\<close>

definition bbs_io_transformer_register ::
  "bool \<Rightarrow> string \<Rightarrow> setup_hook \<Rightarrow> query_hook option \<Rightarrow> ptr \<Rightarrow> bbs_io_transform_type \<Rightarrow>
   bbs_io_transform_dir \<Rightarrow> ptr \<Rightarrow> bbs_io_transformer list \<Rightarrow> int \<times> bbs_io_transformer list" where
  "bbs_io_transformer_register alloc_ok name setup query cleanup type dir module transformers =
     (case find (\<lambda>t. strcasecmp name (t_name t) = 0) transformers of
        Some t \<Rightarrow> (- 1, transformers)
      | None \<Rightarrow>
          if \<not> alloc_ok then (- 1, transformers)
          else (0, transformers @
                 [\<lparr>t_name = name, t_type = type, t_dir = dir, t_setup = setup,
                   t_query = query, t_cleanup = cleanup, t_module = module\<rparr>]))"

definition bbs_io_transformer_unregister ::
  "string \<Rightarrow> bbs_io_transformer list \<Rightarrow> int \<times> bbs_io_transformer list" where
  "bbs_io_transformer_unregister name transformers =
     (case find (\<lambda>t. strcasecmp name (t_name t) = 0) transformers of
        Some t \<Rightarrow> (0, remove_first (\<lambda>t. strcasecmp name (t_name t) = 0) transformers)
      | None \<Rightarrow> (- 1, transformers))"

definition bbs_io_named_transformer_available :: "string \<Rightarrow> bbs_io_transformer list \<Rightarrow> int" where
  "bbs_io_named_transformer_available name transformers =
     (case find (\<lambda>t. strcmp name (t_name t) = 0) transformers of
        Some t \<Rightarrow> 1
      | None \<Rightarrow> 0)"

definition transform_type_from_name ::
  "string \<Rightarrow> bbs_io_transformer list \<Rightarrow> int \<times> bbs_io_transform_type option" where
  "transform_type_from_name name transformers =
     (case find (\<lambda>t. strcmp name (t_name t) = 0) transformers of
        Some t \<Rightarrow> (0, Some (t_type t))
      | None \<Rightarrow> (- 1, None))"

definition bbs_io_transformer_available ::
  "bbs_io_transform_type \<Rightarrow> bbs_io_transformer list \<Rightarrow> int" where
  "bbs_io_transformer_available transform_type transformers =
     (case find (\<lambda>t. t_type t = transform_type) transformers of
        Some t \<Rightarrow> 1
      | None \<Rightarrow> 0)"

section \<open>Session registry\<close>

text \<open>
  \<open>struct io_session\<close>, field \<open>f\<close> written \<open>i_f\<close> as in \<open>i->f\<close>. \<open>i_s\<close> is the address
  of the session's \<open>struct bbs_io_transformations\<close>: register and unregister compare
  addresses only. The identifier is an \<open>unsigned int\<close>.
\<close>

datatype bbs_io_session_type = TRANSFORM_SESSION_NODE | TRANSFORM_SESSION_TCPCLIENT

record io_session =
  i_s :: ptr
  i_id :: "32 word"
  i_start :: int
  i_type :: bbs_io_session_type
  i_owner :: ptr

text \<open>The two file-scope variables \<open>sessions\<close> and \<open>io_session_io\<close>.\<close>

record session_list =
  sessions :: "io_session list"
  io_session_io :: "32 word"

definition sessions_init :: session_list where
  "sessions_init = \<lparr>sessions = [], io_session_io = 0\<rparr>"

text \<open>
  \<open>bbs_io_session_register\<close>; \<open>alloc_ok\<close> tells whether \<open>calloc\<close> returned memory and
  \<open>now\<close> is the value of \<open>time(NULL)\<close>. The counter is incremented only when the entry
  was allocated.
\<close>

definition bbs_io_session_register ::
  "bool \<Rightarrow> int \<Rightarrow> ptr \<Rightarrow> bbs_io_session_type \<Rightarrow> ptr \<Rightarrow> session_list \<Rightarrow> int \<times> session_list" where
  "bbs_io_session_register alloc_ok now s type owner st =
     (case find (\<lambda>i. i_s i = s) (sessions st) of
        Some i \<Rightarrow> (- 1, st)
      | None \<Rightarrow>
          if alloc_ok then
            (0, st\<lparr>sessions := sessions st @
                     [\<lparr>i_s = s, i_id = io_session_io st + 1, i_start = now,
                       i_type = type, i_owner = owner\<rparr>],
                   io_session_io := io_session_io st + 1\<rparr>)
          else (- 1, st))"

definition bbs_io_session_unregister :: "ptr \<Rightarrow> session_list \<Rightarrow> int \<times> session_list" where
  "bbs_io_session_unregister s st =
     (case find (\<lambda>i. i_s i = s) (sessions st) of
        Some i \<Rightarrow> (0, st\<lparr>sessions := remove_first (\<lambda>i. i_s i = s) (sessions st)\<rparr>)
      | None \<Rightarrow> (- 1, st))"

definition find_io_session :: "32 word \<Rightarrow> session_list \<Rightarrow> io_session option" where
  "find_io_session ident st = find (\<lambda>i. i_id i = ident) (sessions st)"

text \<open>
  A run of the session registry: a sequence of register and unregister calls.
  \<open>issued_ids\<close> collects, in order, the identifier given to the entry appended by each
  register call that returned 0.
\<close>

datatype session_op =
  Register bool int ptr bbs_io_session_type ptr
  | Unregister ptr

fun issued_ids :: "session_op list \<Rightarrow> session_list \<Rightarrow> 32 word list" where
  "issued_ids [] st = []"
| "issued_ids (Register a now s ty ow # ops) st =
     (case bbs_io_session_register a now s ty ow st of
        (r, st') \<Rightarrow> (if r = 0 then [i_id (last (sessions st'))] else []) @ issued_ids ops st')"
| "issued_ids (Unregister s # ops) st =
     issued_ids ops (snd (bbs_io_session_unregister s st))"

text \<open>One connection after the other, \<open>n\<close> times: register the stack at address 1, unregister it.\<close>

definition connect_disconnect :: "nat \<Rightarrow> session_op list" where
  "connect_disconnect n =
     concat (replicate n [Register True 0 1 TRANSFORM_SESSION_NODE 0, Unregister 1])"

section \<open>Transformation stack\<close>

text \<open>
  \<open>struct bbs_io_transformation\<close> (a slot), field \<open>f\<close> written \<open>tran_f\<close> as in
  \<open>tran->f\<close>. The slot's transformer pointer refers to a registry entry, which does not
  change once registered; the model keeps the entry itself, \<open>None\<close> for \<open>NULL\<close>.
  \<open>struct bbs_io_transformations\<close> is the array of \<open>MAX_IO_TRANSFORMS\<close> slots: a list whose
  length is that constant. The C parameter \<open>trans\<close> is written \<open>stk\<close>.
\<close>

record bbs_io_transformation =
  tran_data :: ptr
  tran_transformer :: "bbs_io_transformer option"

type_synonym bbs_io_transformations = "bbs_io_transformation list"

definition empty_slot :: bbs_io_transformation where
  "empty_slot = \<lparr>tran_data = NULL, tran_transformer = None\<rparr>"

text \<open>Reading \<open>t->type\<close> or \<open>t->cleanup\<close> through a \<open>NULL\<close> transformer pointer is a fault.\<close>

datatype fault = NullDereference

text \<open>
  What the stack operations do outside the stack: the calls of cleanup hooks, each recorded
  with the slot it was given, and the use count of every module.
\<close>

record io_effects =
  cleanup_calls :: "bbs_io_transformation list"
  module_refs :: "ptr \<Rightarrow> int"

text \<open>
  Modelled from the spec: \<open>bbs_module_ref\<close> and \<open>bbs_module_unref\<close> are declared in
  include/module.h, which is not among the sources; by the spec they increment and
  decrement the reference count kept for the module.
\<close>

definition bbs_module_ref :: "ptr \<Rightarrow> io_effects \<Rightarrow> io_effects" where
  "bbs_module_ref m w = w\<lparr>module_refs := (module_refs w)(m := module_refs w m + 1)\<rparr>"

definition bbs_module_unref :: "ptr \<Rightarrow> io_effects \<Rightarrow> io_effects" where
  "bbs_module_unref m w = w\<lparr>module_refs := (module_refs w)(m := module_refs w m - 1)\<rparr>"

text \<open>The call \<open>t->cleanup(tran)\<close>.\<close>

definition run_cleanup :: "bbs_io_transformation \<Rightarrow> io_effects \<Rightarrow> io_effects" where
  "run_cleanup tran w = w\<lparr>cleanup_calls := cleanup_calls w @ [tran]\<rparr>"

fun io_transform_slots_free :: "bbs_io_transformations \<Rightarrow> int" where
  "io_transform_slots_free [] = 0"
| "io_transform_slots_free (tran # rest) =
     (if tran_transformer tran = None then 1 else io_transform_slots_free rest)"

fun io_transform_store ::
  "bbs_io_transformations \<Rightarrow> bbs_io_transformer \<Rightarrow> ptr \<Rightarrow> int \<times> bbs_io_transformations" where
  "io_transform_store [] t data = (- 1, [])"
| "io_transform_store (tran # rest) t data =
     (if tran_transformer tran = None
      then (0, \<lparr>tran_data = data, tran_transformer = Some t\<rparr> # rest)
      else (case io_transform_store rest t data of (r, rest') \<Rightarrow> (r, tran # rest')))"

fun bbs_io_transform_active ::
  "bbs_io_transformations \<Rightarrow> bbs_io_transform_type \<Rightarrow> fault + int" where
  "bbs_io_transform_active [] type = Inr 0"
| "bbs_io_transform_active (tran # rest) type =
     (if tran_data tran \<noteq> NULL then
        (case tran_transformer tran of
           None \<Rightarrow> Inl NullDereference
         | Some t \<Rightarrow> if t_type t = type then Inr 1 else bbs_io_transform_active rest type)
      else bbs_io_transform_active rest type)"

text \<open>
  \<open>__bbs_io_transform_possible\<close> (an Isabelle name cannot start with an underscore).
  \<open>warn\<close> only selects whether the refusal is logged.
\<close>

definition uu_bbs_io_transform_possible ::
  "bbs_io_transformations \<Rightarrow> bbs_io_transform_type \<Rightarrow> int \<Rightarrow> fault + int" where
  "uu_bbs_io_transform_possible stk type warn =
     (case bbs_io_transform_active stk type of
        Inl f \<Rightarrow> Inl f
      | Inr a \<Rightarrow>
          if a \<noteq> 0 then Inr 0
          else if type = TRANSFORM_TLS_ENCRYPTION then
            (case bbs_io_transform_active stk TRANSFORM_DEFLATE_COMPRESSION of
               Inl f \<Rightarrow> Inl f
             | Inr c \<Rightarrow> if c \<noteq> 0 then Inr 0 else Inr 1)
          else Inr 1)"

definition bbs_io_transform_possible ::
  "bbs_io_transformations \<Rightarrow> bbs_io_transform_type \<Rightarrow> fault + int" where
  "bbs_io_transform_possible stk type = uu_bbs_io_transform_possible stk type 0"

text \<open>
  The result of a setup call: the return value, the stack and the effects afterwards, and
  the two file descriptors as the hook left them.
\<close>

type_synonym setup_result = "int \<times> bbs_io_transformations \<times> io_effects \<times> int \<times> int"

text \<open>
  The last part of \<open>bbs_io_transform_setup\<close>, from the call of the hook of the transformer
  found to the return: on hook success the private data is stored, or, if no slot takes
  it, the cleanup hook is run on a temporary slot and the result is 1.
\<close>

definition setup_run_hook ::
  "bbs_io_transformations \<Rightarrow> bbs_io_transformer \<Rightarrow> bbs_io_transform_dir \<Rightarrow> int \<Rightarrow> int \<Rightarrow> ptr \<Rightarrow>
   io_effects \<Rightarrow> setup_result" where
  "setup_run_hook stk t direction rfd wfd arg w =
     (case t_setup t rfd wfd direction arg of
        (res, data, rfd', wfd') \<Rightarrow>
          if res = 0 then
            (case io_transform_store stk t data of
               (stored, stk') \<Rightarrow>
                 if stored \<noteq> 0
                 then (1, stk',
                       run_cleanup \<lparr>tran_data = data, tran_transformer = Some t\<rparr> w, rfd', wfd')
                 else (0, stk', bbs_module_ref (t_module t) w, rfd', wfd'))
          else (res, stk, w, rfd', wfd'))"

definition bbs_io_transform_setup ::
  "bbs_io_transformations \<Rightarrow> bbs_io_transform_type \<Rightarrow> bbs_io_transform_dir \<Rightarrow> int \<Rightarrow> int \<Rightarrow> ptr \<Rightarrow>
   bbs_io_transformer list \<Rightarrow> io_effects \<Rightarrow> fault + setup_result" where
  "bbs_io_transform_setup stk type direction rfd wfd arg transformers w =
     (case uu_bbs_io_transform_possible stk type 1 of
        Inl f \<Rightarrow> Inl f
      | Inr possible \<Rightarrow>
          if possible = 0 then Inr (- 1, stk, w, rfd, wfd)
          else if io_transform_slots_free stk = 0 then Inr (- 1, stk, w, rfd, wfd)
          else
            (case find (\<lambda>t. t_dir t AND direction \<noteq> 0 \<and> t_type t = type) transformers of
               None \<Rightarrow> Inr (- 1, stk, w, rfd, wfd)
             | Some t \<Rightarrow> Inr (setup_run_hook stk t direction rfd wfd arg w)))"

fun bbs_io_transform_query ::
  "bbs_io_transformations \<Rightarrow> bbs_io_transform_type \<Rightarrow> int \<Rightarrow> ptr \<Rightarrow> fault + int" where
  "bbs_io_transform_query [] type query data = Inr (- 1)"
| "bbs_io_transform_query (tran # rest) type query data =
     (if tran_data tran \<noteq> NULL then
        (case tran_transformer tran of
           None \<Rightarrow> Inl NullDereference
         | Some t \<Rightarrow>
             if t_type t = type then
               (case t_query t of
                  Some q \<Rightarrow> Inr (q (tran_data tran) query data)
                | None \<Rightarrow> Inr 1)
             else bbs_io_transform_query rest type query data)
      else bbs_io_transform_query rest type query data)"

definition teardown_transformation ::
  "bbs_io_transformation \<Rightarrow> io_effects \<Rightarrow> fault + bbs_io_transformation \<times> io_effects" where
  "teardown_transformation tran w =
     (case tran_transformer tran of
        None \<Rightarrow> Inl NullDereference
      | Some t \<Rightarrow>
          Inr (tran\<lparr>tran_data := NULL, tran_transformer := None\<rparr>,
               bbs_module_unref (t_module t) (run_cleanup tran w)))"

fun bbs_io_teardown_all_transformers ::
  "bbs_io_transformations \<Rightarrow> io_effects \<Rightarrow> fault + bbs_io_transformations \<times> io_effects" where
  "bbs_io_teardown_all_transformers [] w = Inr ([], w)"
| "bbs_io_teardown_all_transformers (tran # rest) w =
     (if tran_data tran \<noteq> NULL then
        (case teardown_transformation tran w of
           Inl f \<Rightarrow> Inl f
         | Inr (tran', w') \<Rightarrow>
             (case bbs_io_teardown_all_transformers rest w' of
                Inl f \<Rightarrow> Inl f
              | Inr (rest', w'') \<Rightarrow> Inr (tran' # rest', w'')))
      else
        (case bbs_io_teardown_all_transformers rest w of
           Inl f \<Rightarrow> Inl f
         | Inr (rest', w'') \<Rightarrow> Inr (tran # rest', w'')))"

text \<open>
  The stacks that io.c builds never hold private data without a transformer:
  \<open>io_transform_store\<close> writes both fields, \<open>teardown_transformation\<close> clears both.
\<close>

definition wf_stack :: "bbs_io_transformations \<Rightarrow> bool" where
  "wf_stack stk \<longleftrightarrow> (\<forall>tran\<in>set stk. tran_data tran \<noteq> NULL \<longrightarrow> tran_transformer tran \<noteq> None)"

text \<open>
  The kind a slot is active for: \<open>bbs_io_transform_active\<close>, the query and the teardown
  look at a slot only if its private data is not \<open>NULL\<close>.
\<close>

definition slot_kind :: "bbs_io_transformation \<Rightarrow> bbs_io_transform_type option" where
  "slot_kind tran =
     (if tran_data tran \<noteq> NULL then map_option t_type (tran_transformer tran) else None)"

definition active_count :: "bbs_io_transformations \<Rightarrow> bbs_io_transform_type \<Rightarrow> nat" where
  "active_count stk kind = length (filter (\<lambda>tran. slot_kind tran = Some kind) stk)"

text \<open>The slots each side looks at, and the stack after a teardown.\<close>

definition active_slots :: "bbs_io_transformations \<Rightarrow> bbs_io_transformations" where
  "active_slots stk = filter (\<lambda>tran. tran_data tran \<noteq> NULL) stk"

definition occupied_slots :: "bbs_io_transformations \<Rightarrow> bbs_io_transformations" where
  "occupied_slots stk = filter (\<lambda>tran. tran_transformer tran \<noteq> None) stk"

definition cleared :: "bbs_io_transformations \<Rightarrow> bbs_io_transformations" where
  "cleared stk =
     map (\<lambda>tran. if tran_data tran \<noteq> NULL
                  then tran\<lparr>tran_data := NULL, tran_transformer := None\<rparr> else tran) stk"

definition slots_of_module :: "ptr \<Rightarrow> bbs_io_transformations \<Rightarrow> bbs_io_transformations" where
  "slots_of_module m stk =
     filter (\<lambda>tran. map_option t_module (tran_transformer tran) = Some m) stk"

text \<open>
  The stacks a connection can have: all slots zeroed at first (any capacity), then changed
  by setup and teardown calls only.
\<close>

inductive stack_reachable :: "bbs_io_transformations \<Rightarrow> bool" where
  reach_fresh: "stack_reachable (replicate n empty_slot)"
| reach_setup: "stack_reachable stk \<Longrightarrow>
     bbs_io_transform_setup stk type direction rfd wfd arg transformers w
       = Inr (res, stk', w', rfd', wfd') \<Longrightarrow> stack_reachable stk'"
| reach_teardown: "stack_reachable stk \<Longrightarrow>
     bbs_io_teardown_all_transformers stk w = Inr (stk', w') \<Longrightarrow> stack_reachable stk'"

section \<open>Delimited reader (include/readline.h)\<close>








section \<open>Sample values for the concrete instances\<close>

definition sample_setup :: setup_hook where
  "sample_setup rfd wfd dir arg = (0, 4096, rfd, wfd)"

definition sample_tls :: bbs_io_transformer where
  "sample_tls = \<lparr>t_name = ''tls'', t_type = TRANSFORM_TLS_ENCRYPTION, t_dir = 3,
     t_setup = sample_setup, t_query = None, t_cleanup = 8192, t_module = 7\<rparr>"

definition sample_deflate :: bbs_io_transformer where
  "sample_deflate = \<lparr>t_name = ''deflate'', t_type = TRANSFORM_DEFLATE_COMPRESSION, t_dir = 3,
     t_setup = sample_setup, t_query = None, t_cleanup = 8200, t_module = 9\<rparr>"

definition sample_sessions :: session_list where
  "sample_sessions = \<lparr>sessions = [\<lparr>i_s = 16, i_id = 1, i_start = 1000,
      i_type = TRANSFORM_SESSION_NODE, i_owner = 64\<rparr>], io_session_io = 1\<rparr>"

definition sample_declining_setup :: setup_hook where
  "sample_declining_setup rfd wfd dir arg = (1, NULL, rfd, wfd)"

definition sample_stateless_setup :: setup_hook where
  "sample_stateless_setup rfd wfd dir arg = (0, NULL, rfd, wfd)"

definition sample_logger :: bbs_io_transformer where
  "sample_logger = \<lparr>t_name = ''log'', t_type = TRANSFORM_SESSION_LOGGING, t_dir = 3,
     t_setup = sample_declining_setup, t_query = None, t_cleanup = 8208, t_module = 11\<rparr>"

definition sample_stateless :: bbs_io_transformer where
  "sample_stateless = \<lparr>t_name = ''tap'', t_type = TRANSFORM_SESSION_LOGGING, t_dir = 3,
     t_setup = sample_stateless_setup, t_query = None, t_cleanup = 8216, t_module = 13\<rparr>"

definition sample_stateless_deflate :: bbs_io_transformer where
  "sample_stateless_deflate = \<lparr>t_name = ''zip'', t_type = TRANSFORM_DEFLATE_COMPRESSION,
     t_dir = 3, t_setup = sample_stateless_setup, t_query = None, t_cleanup = 8224,
     t_module = 15\<rparr>"

definition sample_effects :: io_effects where
  "sample_effects = \<lparr>cleanup_calls = [], module_refs = (\<lambda>m. 0)\<rparr>"

definition sample_compressed :: bbs_io_transformations where
  "sample_compressed =
     [\<lparr>tran_data = 4096, tran_transformer = Some sample_deflate\<rparr>, empty_slot, empty_slot]"

definition sample_full :: bbs_io_transformations where
  "sample_full = [\<lparr>tran_data = 4096, tran_transformer = Some sample_deflate\<rparr>]"

definition sample_two_active :: bbs_io_transformations where
  "sample_two_active =
     [\<lparr>tran_data = 4096, tran_transformer = Some sample_tls\<rparr>,
      \<lparr>tran_data = 4104, tran_transformer = Some sample_deflate\<rparr>, empty_slot]"

section \<open>Facts about the string comparisons\<close>

lemma strcmp_zero_iff: "strcmp a b = 0 \<longleftrightarrow> a = b"
  by (induction a b rule: strcmp.induct) auto

lemma strcasecmp_zero_iff: "strcasecmp a b = 0 \<longleftrightarrow> same_name_ci a b"
  by (induction a b rule: strcasecmp.induct) (auto simp: same_name_ci_def)

lemma find_strcasecmp_None:
  "find (\<lambda>t. strcasecmp name (t_name t) = 0) ts = None \<longleftrightarrow>
   \<not> list_ex (\<lambda>t. same_name_ci name (t_name t)) ts"
  by (auto simp add: find_None_iff strcasecmp_zero_iff list_ex_iff)

lemma same_name_ci_TLS_tls: "same_name_ci ''TLS'' ''tls''"
  by code_simp

lemma not_same_name_ci_deflate_tls: "\<not> same_name_ci ''deflate'' ''tls''"
  by code_simp

lemma strcasecmp_TLS_tls: "strcasecmp ''TLS'' ''tls'' = 0"
  by code_simp

lemma strcasecmp_tls_tls: "strcasecmp ''tls'' ''tls'' = 0"
  by code_simp

lemma remove_first_append_new:
  "\<forall>x\<in>set xs. \<not> P x \<Longrightarrow> P y \<Longrightarrow> remove_first P (xs @ [y]) = xs"
  by (induction xs) auto

lemma find_append_new:
  "\<forall>x\<in>set xs. \<not> P x \<Longrightarrow> P y \<Longrightarrow> find P (xs @ [y]) = Some y"
  by (induction xs) auto

section \<open>Transformer registry: lookup by name\<close>

text \<open>What the lookup does compute: it finds exactly the entries whose name is byte-equal.\<close>

lemma available_iff_exact_name:
  "bbs_io_named_transformer_available name ts = 1 \<longleftrightarrow> (\<exists>t\<in>set ts. t_name t = name)"
proof -
  have "bbs_io_named_transformer_available name ts = 1 \<longleftrightarrow>
        find (\<lambda>t. strcmp name (t_name t) = 0) ts \<noteq> None"
    by (simp add: bbs_io_named_transformer_available_def split: option.splits)
  also have "\<dots> \<longleftrightarrow> (\<exists>t\<in>set ts. strcmp name (t_name t) = 0)"
    unfolding find_None_iff by blast
  also have "\<dots> \<longleftrightarrow> (\<exists>t\<in>set ts. t_name t = name)"
    unfolding strcmp_zero_iff by blast
  finally show ?thesis .
qed

text \<open>
  Claim C3. After register and unregister calls with distinct names, \<open>available(name)\<close> is
  true exactly when a transformer of that name is registered, the match ignoring letter
  case. The code at the input that breaks it: the registry holding the one entry
  \<open>tls\<close> (put there by a successful register call on the empty registry) answers 1 for
  \<open>tls\<close> and 0 for \<open>TLS\<close>, although register refuses \<open>TLS\<close> as a duplicate of that entry
  and unregister removes the entry under the name \<open>TLS\<close>.
\<close>

theorem available_misses_other_letter_case:
  "bbs_io_transformer_register True ''tls'' sample_setup None 8192 TRANSFORM_TLS_ENCRYPTION 3 7 []
     = (0, [sample_tls])
   \<and> bbs_io_named_transformer_available ''tls'' [sample_tls] = 1
   \<and> bbs_io_named_transformer_available ''TLS'' [sample_tls] = 0
   \<and> bbs_io_transformer_register True ''TLS'' sample_setup None 8192 TRANSFORM_TLS_ENCRYPTION 3 7
        [sample_tls] = (- 1, [sample_tls])
   \<and> bbs_io_transformer_unregister ''TLS'' [sample_tls] = (0, [])"
  by (simp add: bbs_io_transformer_register_def bbs_io_named_transformer_available_def
      bbs_io_transformer_unregister_def sample_tls_def strcasecmp_TLS_tls
      del: strcasecmp.simps)

section \<open>Transformer registry: registration\<close>

text \<open>
  Claim C4, as it stands: registering a name that is not present (whatever the letter
  case) stores the entry and returns success. It fails when \<open>calloc\<close> returns no memory:
  on the empty registry the call returns -1 and stores nothing.
\<close>

theorem register_new_name_fails_without_memory:
  "bbs_io_transformer_register False ''tls'' sample_setup None 8192 TRANSFORM_TLS_ENCRYPTION 3 7 []
     = (- 1, [])"
  by (simp add: bbs_io_transformer_register_def)

text \<open>
  Claim C4, amended. Registering a name that equals a registered name up to letter case
  returns -1 and leaves the registry unchanged. Registering a name that is not present
  up to letter case appends the entry and returns 0 when the entry's memory was
  allocated, and returns -1 with the registry unchanged when it was not.
\<close>

theorem register_duplicate_or_store:
  "(list_ex (\<lambda>t. same_name_ci name (t_name t)) transformers \<longrightarrow>
      bbs_io_transformer_register alloc_ok name setup query cleanup type dir module transformers
        = (- 1, transformers))
   \<and> (\<not> list_ex (\<lambda>t. same_name_ci name (t_name t)) transformers \<and> alloc_ok \<longrightarrow>
      bbs_io_transformer_register alloc_ok name setup query cleanup type dir module transformers
        = (0, transformers @
             [\<lparr>t_name = name, t_type = type, t_dir = dir, t_setup = setup,
               t_query = query, t_cleanup = cleanup, t_module = module\<rparr>]))
   \<and> (\<not> alloc_ok \<longrightarrow>
      bbs_io_transformer_register alloc_ok name setup query cleanup type dir module transformers
        = (- 1, transformers))"
  using find_strcasecmp_None[of name transformers]
  by (auto simp: bbs_io_transformer_register_def split: option.splits)

theorem register_duplicate_or_store_witness:
  "list_ex (\<lambda>t. same_name_ci ''TLS'' (t_name t)) [sample_tls]
   \<and> bbs_io_transformer_register True ''TLS'' sample_setup None 8192 TRANSFORM_TLS_ENCRYPTION 3 7
        [sample_tls] = (- 1, [sample_tls])
   \<and> \<not> list_ex (\<lambda>t. same_name_ci ''deflate'' (t_name t)) [sample_tls]
   \<and> bbs_io_transformer_register True ''deflate'' sample_setup None 8200
        TRANSFORM_DEFLATE_COMPRESSION 3 9 [sample_tls] = (0, [sample_tls, sample_deflate])
   \<and> bbs_io_transformer_register False ''deflate'' sample_setup None 8200
        TRANSFORM_DEFLATE_COMPRESSION 3 9 [sample_tls] = (- 1, [sample_tls])"
proof -
  have dup: "list_ex (\<lambda>t. same_name_ci ''TLS'' (t_name t)) [sample_tls]"
    by (simp add: sample_tls_def same_name_ci_TLS_tls)
  have new: "\<not> list_ex (\<lambda>t. same_name_ci ''deflate'' (t_name t)) [sample_tls]"
    by (simp add: sample_tls_def not_same_name_ci_deflate_tls)
  show ?thesis
    using dup new
      register_duplicate_or_store[of "''TLS''" "[sample_tls]" True sample_setup None 8192
        TRANSFORM_TLS_ENCRYPTION 3 7]
      register_duplicate_or_store[of "''deflate''" "[sample_tls]" True sample_setup None 8200
        TRANSFORM_DEFLATE_COMPRESSION 3 9]
      register_duplicate_or_store[of "''deflate''" "[sample_tls]" False sample_setup None 8200
        TRANSFORM_DEFLATE_COMPRESSION 3 9]
    by (simp add: sample_deflate_def)
qed

section \<open>Session registry: errors\<close>

text \<open>
  Claim C7. Register returns -1 and leaves the session list unchanged when a session
  already refers to the same stack; unregister returns -1 and leaves the list unchanged
  when no session refers to the stack; both are ordinary returns. After a register call
  that returned 0, unregister of the same stack returns 0 (and the list is again the one
  before the register call).
\<close>

theorem session_register_unregister_errors:
  "(list_ex (\<lambda>i. i_s i = s) (sessions st) \<longrightarrow>
      bbs_io_session_register alloc_ok now s type owner st = (- 1, st))
   \<and> (\<not> list_ex (\<lambda>i. i_s i = s) (sessions st) \<longrightarrow>
      bbs_io_session_unregister s st = (- 1, st))
   \<and> (bbs_io_session_register alloc_ok now s type owner st = (0, st') \<longrightarrow>
        fst (bbs_io_session_unregister s st') = 0
        \<and> sessions (snd (bbs_io_session_unregister s st')) = sessions st)"
proof (intro conjI impI)
  assume "list_ex (\<lambda>i. i_s i = s) (sessions st)"
  then have "find (\<lambda>i. i_s i = s) (sessions st) \<noteq> None"
    by (auto simp add: find_None_iff list_ex_iff)
  then show "bbs_io_session_register alloc_ok now s type owner st = (- 1, st)"
    by (auto simp: bbs_io_session_register_def)
next
  assume "\<not> list_ex (\<lambda>i. i_s i = s) (sessions st)"
  then have "find (\<lambda>i. i_s i = s) (sessions st) = None"
    by (auto simp add: find_None_iff list_ex_iff)
  then show "bbs_io_session_unregister s st = (- 1, st)"
    by (simp add: bbs_io_session_unregister_def)
next
  let ?new = "\<lparr>i_s = s, i_id = io_session_io st + 1, i_start = now, i_type = type,
                i_owner = owner\<rparr>"
  assume r: "bbs_io_session_register alloc_ok now s type owner st = (0, st')"
  then have none: "find (\<lambda>i. i_s i = s) (sessions st) = None"
    by (auto simp: bbs_io_session_register_def split: option.splits)
  then have fresh: "\<forall>i\<in>set (sessions st). \<not> i_s i = s"
    by (simp add: find_None_iff)
  from r none have st': "sessions st' = sessions st @ [?new]"
    by (auto simp: bbs_io_session_register_def split: if_splits)
  have found: "find (\<lambda>i. i_s i = s) (sessions st @ [?new]) = Some ?new"
    using find_append_new[OF fresh, of ?new] by simp
  have removed: "remove_first (\<lambda>i. i_s i = s) (sessions st @ [?new]) = sessions st"
    using remove_first_append_new[OF fresh, of ?new] by simp
  show "fst (bbs_io_session_unregister s st') = 0"
    by (simp add: bbs_io_session_unregister_def st' found)
  show "sessions (snd (bbs_io_session_unregister s st')) = sessions st"
    by (simp add: bbs_io_session_unregister_def st' found removed)
qed

theorem session_register_unregister_errors_witness:
  "list_ex (\<lambda>i. i_s i = 16) (sessions sample_sessions)
   \<and> bbs_io_session_register True 2000 16 TRANSFORM_SESSION_TCPCLIENT 80 sample_sessions
       = (- 1, sample_sessions)
   \<and> \<not> list_ex (\<lambda>i. i_s i = 32) (sessions sample_sessions)
   \<and> bbs_io_session_unregister 32 sample_sessions = (- 1, sample_sessions)
   \<and> fst (bbs_io_session_register True 2000 32 TRANSFORM_SESSION_TCPCLIENT 80 sample_sessions) = 0
   \<and> fst (bbs_io_session_unregister 32
        (snd (bbs_io_session_register True 2000 32 TRANSFORM_SESSION_TCPCLIENT 80 sample_sessions)))
       = 0"
proof -
  have dup: "list_ex (\<lambda>i. i_s i = 16) (sessions sample_sessions)"
    by (simp add: sample_sessions_def)
  have new: "\<not> list_ex (\<lambda>i. i_s i = 32) (sessions sample_sessions)"
    by (simp add: sample_sessions_def)
  have ok: "fst (bbs_io_session_register True 2000 32 TRANSFORM_SESSION_TCPCLIENT 80
      sample_sessions) = 0"
    by (simp add: sample_sessions_def bbs_io_session_register_def)
  then have reg: "bbs_io_session_register True 2000 32 TRANSFORM_SESSION_TCPCLIENT 80 sample_sessions
    = (0, snd (bbs_io_session_register True 2000 32 TRANSFORM_SESSION_TCPCLIENT 80 sample_sessions))"
    by (simp add: prod_eq_iff)
  show ?thesis
    using dup new ok reg
      session_register_unregister_errors[of 16 sample_sessions True 2000
        TRANSFORM_SESSION_TCPCLIENT 80]
      session_register_unregister_errors[of 32 sample_sessions True 2000
        TRANSFORM_SESSION_TCPCLIENT 80
        "snd (bbs_io_session_register True 2000 32 TRANSFORM_SESSION_TCPCLIENT 80 sample_sessions)"]
    by simp
qed

section \<open>Session registry: identifiers\<close>

lemma register_cases:
  "bbs_io_session_register a now s ty ow st = (r, st') \<Longrightarrow>
     (r = - 1 \<and> st' = st) \<or>
     (r = 0 \<and> io_session_io st' = io_session_io st + 1 \<and>
      sessions st' \<noteq> [] \<and> i_id (last (sessions st')) = io_session_io st + 1)"
  by (auto simp: bbs_io_session_register_def split: option.splits if_splits)

lemma unregister_counter:
  "io_session_io (snd (bbs_io_session_unregister s st)) = io_session_io st"
  by (simp add: bbs_io_session_unregister_def split: option.splits)

lemma map_upt_Suc_Cons: "map f [0..<Suc n] = f 0 # map (\<lambda>k. f (Suc k)) [0..<n]"
  by (induction n) auto

text \<open>The identifiers issued in a run are the successors of the counter, modulo \<open>2^32\<close>.\<close>

lemma issued_ids_consecutive:
  "issued_ids ops st =
     map (\<lambda>k. io_session_io st + 1 + of_nat k) [0..<length (issued_ids ops st)]"
proof (induction ops st rule: issued_ids.induct)
  case (1 st)
  show ?case by simp
next
  case (2 a now s ty ow ops st)
  obtain r st' where reg: "bbs_io_session_register a now s ty ow st = (r, st')"
    by (cases "bbs_io_session_register a now s ty ow st")
  note IH = "2.IH"[OF reg[symmetric]]
  from register_cases[OF reg] show ?case
  proof
    assume "r = - 1 \<and> st' = st"
    with IH reg show ?thesis by simp
  next
    assume ok: "r = 0 \<and> io_session_io st' = io_session_io st + 1 \<and>
      sessions st' \<noteq> [] \<and> i_id (last (sessions st')) = io_session_io st + 1"
    let ?n = "length (issued_ids ops st')"
    have step: "issued_ids (Register a now s ty ow # ops) st =
            (io_session_io st + 1) # issued_ids ops st'"
      using reg ok by simp
    have "issued_ids ops st' =
         map (\<lambda>k. io_session_io st + 1 + of_nat (Suc k)) [0..<?n]"
      using IH ok by (simp add: ac_simps)
    then have "issued_ids (Register a now s ty ow # ops) st =
        map (\<lambda>k. io_session_io st + 1 + of_nat k) [0..<Suc ?n]"
      unfolding step map_upt_Suc_Cons by simp
    moreover have "length (issued_ids (Register a now s ty ow # ops) st) = Suc ?n"
      using step by simp
    ultimately show ?thesis by simp
  qed
next
  case (3 s ops st)
  then show ?case by (simp add: unregister_counter)
qed

lemma cycle_length:
  "sessions st = [] \<Longrightarrow>
   length (issued_ids (concat (replicate n [Register True now s ty ow, Unregister s]) @ rest) st)
     = n + length (issued_ids rest (st\<lparr>io_session_io := io_session_io st + of_nat n\<rparr>))"
proof (induction n arbitrary: st)
  case 0
  then show ?case by simp
next
  case (Suc n)
  let ?st1 = "st\<lparr>io_session_io := io_session_io st + 1\<rparr>"
  have reg: "bbs_io_session_register True now s ty ow st =
      (0, st\<lparr>sessions := [\<lparr>i_s = s, i_id = io_session_io st + 1, i_start = now,
                       i_type = ty, i_owner = ow\<rparr>], io_session_io := io_session_io st + 1\<rparr>)"
    using Suc.prems by (simp add: bbs_io_session_register_def)
  have unreg: "snd (bbs_io_session_unregister s
       (st\<lparr>sessions := [\<lparr>i_s = s, i_id = io_session_io st + 1, i_start = now,
                       i_type = ty, i_owner = ow\<rparr>], io_session_io := io_session_io st + 1\<rparr>)) = ?st1"
    using Suc.prems by (simp add: bbs_io_session_unregister_def)
  have "sessions ?st1 = []" using Suc.prems by simp
  from Suc.IH[OF this]
  have "length (issued_ids (concat (replicate n [Register True now s ty ow, Unregister s]) @ rest) ?st1)
     = n + length (issued_ids rest (st\<lparr>io_session_io := io_session_io st + of_nat (Suc n)\<rparr>))"
    by (simp add: ac_simps)
  then show ?case
    by (simp add: reg unreg del: of_nat_Suc)
qed

text \<open>
  Claim C8, as it stands: the identifiers issued by the successful registrations of one
  process run are strictly increasing and never issued twice. The counter is an
  \<open>unsigned int\<close>, so it wraps: a run that starts with the empty list and counter 0,
  serves \<open>2^32\<close> connections one after the other and registers once more, issues the
  identifier 1 to its first and to its last registration.
\<close>

theorem session_id_reissued_after_wrap:
  "\<not> distinct (issued_ids
       (connect_disconnect 4294967296 @ [Register True 0 1 TRANSFORM_SESSION_NODE 0])
       sessions_init)"
proof -
  let ?ops = "connect_disconnect 4294967296 @ [Register True 0 1 TRANSFORM_SESSION_NODE 0]"
  let ?ids = "issued_ids ?ops sessions_init"
  have len: "length ?ids = 4294967297"
    unfolding connect_disconnect_def
    by (subst cycle_length) (simp_all add: sessions_init_def bbs_io_session_register_def)
  have nth: "?ids ! k = 1 + of_nat k" if "k < 4294967297" for k
    using that len by (subst issued_ids_consecutive) (simp add: sessions_init_def)
  have same: "?ids ! 0 = ?ids ! 4294967296"
    using nth[of 0] nth[of 4294967296] by simp
  show ?thesis
  proof
    assume "distinct ?ids"
    moreover have "0 < length ?ids" and "4294967296 < length ?ids"
      by (simp_all only: len)
    ultimately have "(?ids ! 0 = ?ids ! 4294967296) = ((0::nat) = 4294967296)"
      by (rule nth_eq_iff_index_eq)
    with same show False by simp
  qed
qed

text \<open>
  Claim C8, amended. In any run of register and unregister calls, from any state, during
  which the counter does not pass \<open>2^32 - 1\<close>, the identifiers issued by the successful
  registrations are strictly increasing as unsigned values, all above the counter's
  starting value, and no identifier is issued twice, whatever unregister calls are
  interleaved.
\<close>

theorem session_ids_increase_until_wrap:
  assumes "unat (io_session_io st) + length (issued_ids ops st) < 2 ^ 32"
  shows "sorted_wrt (<) (issued_ids ops st) \<and> distinct (issued_ids ops st)
     \<and> (\<forall>x\<in>set (issued_ids ops st). io_session_io st < x)"
proof -
  let ?c = "io_session_io st" and ?n = "length (issued_ids ops st)"
  have val: "unat (?c + 1 + of_nat k) = unat ?c + 1 + k" if "k < ?n" for k
  proof -
    have "unat ?c + 1 + k < 2 ^ 32" using that assms by simp
    then show ?thesis
      by (simp add: unat_word_ariths unat_of_nat)
  qed
  have nth: "issued_ids ops st ! k = ?c + 1 + of_nat k" if "k < ?n" for k
    using that by (subst issued_ids_consecutive) simp
  have sorted: "sorted_wrt (<) (issued_ids ops st)"
    unfolding sorted_wrt_iff_nth_less
  proof (intro allI impI)
    fix i j assume "i < j" "j < ?n"
    then show "issued_ids ops st ! i < issued_ids ops st ! j"
      by (simp add: nth word_less_nat_alt val)
  qed
  moreover have "distinct (issued_ids ops st)"
    using sorted by (simp add: strict_sorted_iff)
  moreover have "\<forall>x\<in>set (issued_ids ops st). ?c < x"
  proof
    fix x assume "x \<in> set (issued_ids ops st)"
    then obtain k where "k < ?n" "x = issued_ids ops st ! k"
      by (auto simp: in_set_conv_nth)
    then show "?c < x" by (simp add: nth word_less_nat_alt val)
  qed
  ultimately show ?thesis by simp
qed

theorem session_ids_increase_until_wrap_witness:
  "issued_ids [Register True 10 16 TRANSFORM_SESSION_NODE 64, Unregister 16,
               Register True 11 32 TRANSFORM_SESSION_TCPCLIENT 80,
               Register True 12 16 TRANSFORM_SESSION_NODE 64] sessions_init = [1, 2, 3]
   \<and> sorted_wrt (<) (issued_ids [Register True 10 16 TRANSFORM_SESSION_NODE 64, Unregister 16,
               Register True 11 32 TRANSFORM_SESSION_TCPCLIENT 80,
               Register True 12 16 TRANSFORM_SESSION_NODE 64] sessions_init)
   \<and> distinct (issued_ids [Register True 10 16 TRANSFORM_SESSION_NODE 64, Unregister 16,
               Register True 11 32 TRANSFORM_SESSION_TCPCLIENT 80,
               Register True 12 16 TRANSFORM_SESSION_NODE 64] sessions_init)"
proof -
  let ?ops = "[Register True 10 16 TRANSFORM_SESSION_NODE 64, Unregister 16,
               Register True 11 32 TRANSFORM_SESSION_TCPCLIENT 80,
               Register True 12 16 TRANSFORM_SESSION_NODE 64]"
  have ids: "issued_ids ?ops sessions_init = [1, 2, 3]"
    by (simp add: sessions_init_def bbs_io_session_register_def bbs_io_session_unregister_def)
  have "unat (io_session_io sessions_init) + length (issued_ids ?ops sessions_init) < 2 ^ 32"
    unfolding ids by (simp add: sessions_init_def)
  from session_ids_increase_until_wrap[OF this] ids show ?thesis
    by simp
qed

section \<open>Transformation stack: well-formed stacks\<close>

lemmas sample_defs = sample_tls_def sample_deflate_def sample_logger_def sample_stateless_def
  sample_setup_def sample_declining_setup_def sample_stateless_setup_def sample_effects_def
  sample_compressed_def sample_full_def sample_two_active_def empty_slot_def

lemmas eval_defs = bbs_io_transform_setup_def uu_bbs_io_transform_possible_def
  setup_run_hook_def teardown_transformation_def run_cleanup_def bbs_module_unref_def
  bbs_module_ref_def sample_defs sample_stateless_deflate_def numeral_3_eq_3

lemma find_None_list_ex: "find P xs = None \<longleftrightarrow> \<not> list_ex P xs"
  by (auto simp: find_None_iff list_ex_iff)

lemma wf_stack_Nil: "wf_stack []"
  by (simp add: wf_stack_def)

lemma wf_stack_Cons:
  "wf_stack (tran # stk) \<longleftrightarrow>
     (tran_data tran \<noteq> NULL \<longrightarrow> tran_transformer tran \<noteq> None) \<and> wf_stack stk"
  by (simp add: wf_stack_def)

lemma active_count_Nil: "active_count [] kind = 0"
  by (simp add: active_count_def)

lemma active_count_Cons:
  "active_count (tran # stk) kind =
     (if slot_kind tran = Some kind then 1 else 0) + active_count stk kind"
  by (simp add: active_count_def)

lemma slot_kind_free:
  "tran_transformer tran = None \<Longrightarrow> slot_kind tran = None"
  by (simp add: slot_kind_def)

lemma slot_kind_new:
  "slot_kind \<lparr>tran_data = data, tran_transformer = Some t\<rparr> =
     (if data \<noteq> NULL then Some (t_type t) else None)"
  by (simp add: slot_kind_def)

lemma active_wf:
  "wf_stack stk \<Longrightarrow>
   bbs_io_transform_active stk type = Inr (if 0 < active_count stk type then 1 else 0)"
proof (induction stk)
  case Nil
  show ?case by (simp add: active_count_Nil)
next
  case (Cons tran stk)
  then have IH: "bbs_io_transform_active stk type =
      Inr (if 0 < active_count stk type then 1 else 0)"
    and wf: "tran_data tran \<noteq> NULL \<longrightarrow> tran_transformer tran \<noteq> None"
    by (simp_all add: wf_stack_Cons)
  show ?case
  proof (cases "tran_data tran = NULL")
    case True
    then show ?thesis by (simp add: IH active_count_Cons slot_kind_def)
  next
    case False
    with wf obtain t where t: "tran_transformer tran = Some t" by auto
    with False show ?thesis by (simp add: IH active_count_Cons slot_kind_def)
  qed
qed

lemma store_cases:
  "io_transform_store stk t data = (r, stk') \<Longrightarrow>
   (r = - 1 \<and> stk' = stk \<and> io_transform_slots_free stk = 0) \<or>
   (r = 0 \<and> io_transform_slots_free stk = 1 \<and> length stk' = length stk)"
  by (induction stk arbitrary: r stk') (auto split: if_splits prod.splits)

lemma store_count:
  "io_transform_store stk t data = (0, stk') \<Longrightarrow>
   active_count stk' kind =
     active_count stk kind + (if data \<noteq> NULL \<and> t_type t = kind then 1 else 0)"
proof (induction stk arbitrary: stk')
  case Nil
  then show ?case by simp
next
  case (Cons tran stk)
  show ?case
  proof (cases "tran_transformer tran = None")
    case True
    with Cons.prems have "stk' = \<lparr>tran_data = data, tran_transformer = Some t\<rparr> # stk"
      by simp
    with True show ?thesis
      by (simp add: active_count_Cons slot_kind_free slot_kind_new)
  next
    case False
    with Cons.prems obtain rest' where
      rest: "io_transform_store stk t data = (0, rest')" and stk': "stk' = tran # rest'"
      by (auto split: prod.splits)
    from Cons.IH[OF rest] stk' show ?thesis
      by (simp add: active_count_Cons)
  qed
qed

lemma store_wf:
  "wf_stack stk \<Longrightarrow> io_transform_store stk t data = (r, stk') \<Longrightarrow> wf_stack stk'"
proof (induction stk arbitrary: r stk')
  case Nil
  then show ?case by simp
next
  case (Cons tran stk)
  show ?case
  proof (cases "tran_transformer tran = None")
    case True
    with Cons.prems show ?thesis by (auto simp: wf_stack_Cons)
  next
    case False
    with Cons.prems obtain rest' where
      rest: "io_transform_store stk t data = (r, rest')" and stk': "stk' = tran # rest'"
      by (auto split: prod.splits)
    from Cons.prems(1) have "wf_stack stk" by (simp add: wf_stack_Cons)
    from Cons.IH[OF this rest] Cons.prems(1) stk' show ?thesis
      by (simp add: wf_stack_Cons)
  qed
qed

lemma possible_wf:
  "wf_stack stk \<Longrightarrow>
   uu_bbs_io_transform_possible stk type warn =
     Inr (if 0 < active_count stk type then 0
          else if type = TRANSFORM_TLS_ENCRYPTION
                  \<and> 0 < active_count stk TRANSFORM_DEFLATE_COMPRESSION then 0
          else 1)"
  by (simp add: uu_bbs_io_transform_possible_def active_wf)

lemma setup_run_hook_cases:
  assumes "setup_run_hook stk t direction rfd wfd arg w = (res, stk', w', rfd', wfd')"
    and "t_setup t rfd wfd direction arg = (hres, data, hrfd, hwfd)"
  shows "rfd' = hrfd \<and> wfd' = hwfd \<and>
    (if hres \<noteq> 0 then res = hres \<and> stk' = stk \<and> w' = w
     else if io_transform_slots_free stk = 0
       then res = 1 \<and> stk' = stk
            \<and> w' = run_cleanup \<lparr>tran_data = data, tran_transformer = Some t\<rparr> w
       else res = 0 \<and> io_transform_store stk t data = (0, stk')
            \<and> w' = bbs_module_ref (t_module t) w)"
proof -
  obtain r s where st: "io_transform_store stk t data = (r, s)"
    by (cases "io_transform_store stk t data")
  from store_cases[OF st] assms st show ?thesis
    by (auto simp: setup_run_hook_def split: if_splits)
qed

section \<open>Transformation stack: teardown\<close>

lemma teardown_wf:
  "wf_stack stk \<Longrightarrow>
   bbs_io_teardown_all_transformers stk w =
     Inr (cleared stk,
          w\<lparr>cleanup_calls := cleanup_calls w @ active_slots stk,
            module_refs := (\<lambda>m. module_refs w m
                                  - int (length (slots_of_module m (active_slots stk))))\<rparr>)"
proof (induction stk arbitrary: w)
  case Nil
  show ?case by (simp add: cleared_def active_slots_def slots_of_module_def)
next
  case (Cons tran stk)
  then have wf: "wf_stack stk"
    and t: "tran_data tran \<noteq> NULL \<longrightarrow> tran_transformer tran \<noteq> None"
    by (simp_all add: wf_stack_Cons)
  note IH = Cons.IH[OF wf]
  show ?case
  proof (cases "tran_data tran = NULL")
    case True
    then show ?thesis
      by (simp add: IH cleared_def active_slots_def)
  next
    case False
    with t obtain tr where tr: "tran_transformer tran = Some tr" by auto
    define w1 where "w1 = bbs_module_unref (t_module tr) (run_cleanup tran w)"
    have step: "bbs_io_teardown_all_transformers (tran # stk) w =
        (case bbs_io_teardown_all_transformers stk w1 of
           Inl f \<Rightarrow> Inl f
         | Inr (rest', w'') \<Rightarrow>
             Inr (tran\<lparr>tran_data := NULL, tran_transformer := None\<rparr> # rest', w''))"
      using False tr by (simp add: teardown_transformation_def w1_def)
    have refs: "(\<lambda>m. module_refs w1 m - int (length (slots_of_module m (active_slots stk))))
          = (\<lambda>m. module_refs w m
                   - int (length (slots_of_module m (active_slots (tran # stk)))))"
      using False tr
      by (auto simp: fun_eq_iff active_slots_def slots_of_module_def w1_def
          bbs_module_unref_def run_cleanup_def)
    have calls: "cleanup_calls w1 @ active_slots stk
                   = cleanup_calls w @ active_slots (tran # stk)"
      using False by (simp add: active_slots_def w1_def bbs_module_unref_def run_cleanup_def)
    have cl: "tran\<lparr>tran_data := NULL, tran_transformer := None\<rparr> # cleared stk
                = cleared (tran # stk)"
      using False by (simp add: cleared_def)
    have base: "w1\<lparr>cleanup_calls := X, module_refs := Y\<rparr>
                  = w\<lparr>cleanup_calls := X, module_refs := Y\<rparr>" for X Y
      by (simp add: w1_def bbs_module_unref_def run_cleanup_def)
    show ?thesis
      unfolding step IH refs calls by (simp only: sum.case prod.case cl base)
  qed
qed

lemma cleared_no_data: "\<forall>tran\<in>set (cleared stk). tran_data tran = NULL"
  by (auto simp: cleared_def)

lemma cleared_idem: "cleared (cleared stk) = cleared stk"
  by (simp add: cleared_def)

lemma active_slots_cleared: "active_slots (cleared stk) = []"
  by (induction stk) (auto simp: cleared_def active_slots_def)

lemma wf_cleared: "wf_stack (cleared stk)"
  by (simp add: wf_stack_def cleared_no_data)

lemma active_count_cleared: "active_count (cleared stk) kind = 0"
proof -
  have "\<forall>tran\<in>set (cleared stk). slot_kind tran \<noteq> Some kind"
    using cleared_no_data[of stk] by (simp add: slot_kind_def)
  then show ?thesis
    unfolding active_count_def by (simp add: filter_False)
qed

text \<open>
  What teardown_all does on a well-formed stack: it calls the cleanup hook once for each
  slot that holds private data, in slot order, lowers the reference count of each owning
  module once per such slot, and leaves no slot with private data; a second call changes
  nothing. (Every stack that io.c builds is well formed, see \<open>reachable_invariant\<close>
  below.)
\<close>

lemma teardown_all_on_slots_with_data:
  assumes "wf_stack stk"
  shows "\<exists>stk' w'. bbs_io_teardown_all_transformers stk w = Inr (stk', w')
     \<and> cleanup_calls w' = cleanup_calls w @ active_slots stk
     \<and> length (cleanup_calls w') = length (cleanup_calls w) + length (active_slots stk)
     \<and> (\<forall>m. module_refs w' m =
              module_refs w m - int (length (slots_of_module m (active_slots stk))))
     \<and> length stk' = length stk
     \<and> active_slots stk' = []
     \<and> bbs_io_teardown_all_transformers stk' w' = Inr (stk', w')"
proof -
  let ?w' = "w\<lparr>cleanup_calls := cleanup_calls w @ active_slots stk,
            module_refs := (\<lambda>m. module_refs w m
                                  - int (length (slots_of_module m (active_slots stk))))\<rparr>"
  have first: "bbs_io_teardown_all_transformers stk w = Inr (cleared stk, ?w')"
    by (rule teardown_wf[OF assms])
  have again: "bbs_io_teardown_all_transformers (cleared stk) ?w' = Inr (cleared stk, ?w')"
    by (simp add: teardown_wf[OF wf_cleared] cleared_idem active_slots_cleared
        slots_of_module_def)
  show ?thesis
    using first again
    by (simp add: active_slots_cleared) (simp add: cleared_def)
qed

lemma teardown_all_on_slots_with_data_example:
  "wf_stack sample_two_active
   \<and> bbs_io_teardown_all_transformers sample_two_active sample_effects
     = Inr ([empty_slot, empty_slot, empty_slot],
            \<lparr>cleanup_calls = [\<lparr>tran_data = 4096, tran_transformer = Some sample_tls\<rparr>,
                              \<lparr>tran_data = 4104, tran_transformer = Some sample_deflate\<rparr>],
             module_refs = (\<lambda>m. 0)(7 := - 1, 9 := - 1)\<rparr>)
   \<and> length (active_slots sample_two_active) = 2"
proof -
  have wf: "wf_stack sample_two_active"
    by (simp add: wf_stack_def sample_defs)
  from teardown_all_on_slots_with_data[OF wf, of sample_effects] wf
  show ?thesis
    by (simp add: active_slots_def teardown_transformation_def run_cleanup_def
        bbs_module_unref_def sample_defs)
qed

text \<open>
  Claim C6. On a stack with K active slots teardown_all calls the cleanup hook exactly K
  times, lowers the owning module's reference count once per slot and leaves no active
  slot; a second call is a no-op. The code at the input that breaks it: on a stack of one
  slot a setup whose hook succeeds and leaves the private data \<open>NULL\<close> returns 0, fills
  the slot and takes a module reference; teardown_all then calls no cleanup hook, leaves
  the reference count at 1 and leaves the slot taken, so that a later setup on the same
  stack still fails for want of a free slot.
\<close>

theorem teardown_all_skips_slot_without_private_data:
  "bbs_io_transform_setup [empty_slot] TRANSFORM_SESSION_LOGGING 1 5 6 0
       [sample_tls, sample_stateless] sample_effects
     = Inr (0, [\<lparr>tran_data = NULL, tran_transformer = Some sample_stateless\<rparr>],
            bbs_module_ref 13 sample_effects, 5, 6)
   \<and> bbs_io_teardown_all_transformers
       [\<lparr>tran_data = NULL, tran_transformer = Some sample_stateless\<rparr>]
       (bbs_module_ref 13 sample_effects)
     = Inr ([\<lparr>tran_data = NULL, tran_transformer = Some sample_stateless\<rparr>],
            bbs_module_ref 13 sample_effects)
   \<and> cleanup_calls (bbs_module_ref 13 sample_effects) = []
   \<and> module_refs (bbs_module_ref 13 sample_effects) 13 = 1
   \<and> bbs_io_transform_setup
       [\<lparr>tran_data = NULL, tran_transformer = Some sample_stateless\<rparr>]
       TRANSFORM_TLS_ENCRYPTION 1 5 6 0 [sample_tls, sample_stateless]
       (bbs_module_ref 13 sample_effects)
     = Inr (- 1, [\<lparr>tran_data = NULL, tran_transformer = Some sample_stateless\<rparr>],
            bbs_module_ref 13 sample_effects, 5, 6)"
  by (simp add: eval_defs)

section \<open>Transformation stack: setup\<close>

lemma setup_cases:
  assumes wf: "wf_stack stk"
    and run: "bbs_io_transform_setup stk type direction rfd wfd arg transformers w
                = Inr (res, stk', w', rfd', wfd')"
  shows "(res = - 1 \<and> stk' = stk \<and> w' = w \<and> rfd' = rfd \<and> wfd' = wfd)
    \<or> (\<exists>t hres data.
          find (\<lambda>t. t_dir t AND direction \<noteq> 0 \<and> t_type t = type) transformers = Some t
          \<and> active_count stk type = 0
          \<and> t_setup t rfd wfd direction arg = (hres, data, rfd', wfd')
          \<and> (hres \<noteq> 0 \<and> res = hres \<and> stk' = stk \<and> w' = w
             \<or> hres = 0 \<and> res = 0 \<and> io_transform_store stk t data = (0, stk')
                \<and> w' = bbs_module_ref (t_module t) w))"
proof (cases "uu_bbs_io_transform_possible stk type 1 = Inr 1
              \<and> io_transform_slots_free stk \<noteq> 0
              \<and> find (\<lambda>t. t_dir t AND direction \<noteq> 0 \<and> t_type t = type) transformers \<noteq> None")
  case False
  with run possible_wf[OF wf, of type 1] have "res = - 1 \<and> stk' = stk \<and> w' = w \<and> rfd' = rfd \<and> wfd' = wfd"
    by (auto simp: bbs_io_transform_setup_def split: if_splits option.splits)
  then show ?thesis by simp
next
  case True
  then obtain t where
    t: "find (\<lambda>t. t_dir t AND direction \<noteq> 0 \<and> t_type t = type) transformers = Some t"
    by auto
  from True possible_wf[OF wf, of type 1] have none: "active_count stk type = 0"
    by (auto split: if_splits)
  obtain hres data hrfd hwfd where
    hook: "t_setup t rfd wfd direction arg = (hres, data, hrfd, hwfd)"
    by (cases "t_setup t rfd wfd direction arg")
  from run True t have
    "setup_run_hook stk t direction rfd wfd arg w = (res, stk', w', rfd', wfd')"
    by (simp add: bbs_io_transform_setup_def)
  from setup_run_hook_cases[OF this hook] True
  have "rfd' = hrfd \<and> wfd' = hwfd \<and>
     (hres \<noteq> 0 \<and> res = hres \<and> stk' = stk \<and> w' = w
      \<or> hres = 0 \<and> res = 0 \<and> io_transform_store stk t data = (0, stk')
         \<and> w' = bbs_module_ref (t_module t) w)"
    by (auto split: if_splits)
  with t none hook show ?thesis by auto
qed

lemma find_SomeD: "find P xs = Some x \<Longrightarrow> P x"
  by (auto simp: find_Some_iff)

lemma setup_preserves_invariant:
  assumes wf: "wf_stack stk"
    and one: "\<forall>kind. active_count stk kind \<le> 1"
    and run: "bbs_io_transform_setup stk type direction rfd wfd arg transformers w
                = Inr (res, stk', w', rfd', wfd')"
  shows "wf_stack stk' \<and> (\<forall>kind. active_count stk' kind \<le> 1)"
proof -
  from setup_cases[OF wf run] show ?thesis
  proof (elim disjE exE conjE)
    assume "stk' = stk"
    with wf one show ?thesis by simp
  next
    fix t hres data
    assume "stk' = stk"
    with wf one show ?thesis by simp
  next
    fix t hres data
    assume t: "find (\<lambda>t. t_dir t AND direction \<noteq> 0 \<and> t_type t = type) transformers = Some t"
      and none: "active_count stk type = 0"
      and st: "io_transform_store stk t data = (0, stk')"
    from find_SomeD[OF t] have ty: "t_type t = type" by simp
    have "active_count stk' kind \<le> 1" for kind
      using store_count[OF st, of kind] one none ty
      by (cases "kind = type") (auto split: if_splits)
    with store_wf[OF wf st] show ?thesis by simp
  qed
qed

lemma fresh_invariant:
  "wf_stack (replicate n empty_slot) \<and> active_count (replicate n empty_slot) kind = 0"
  by (induction n) (simp_all add: wf_stack_def active_count_def slot_kind_def empty_slot_def)

lemma reachable_invariant:
  "stack_reachable stk \<Longrightarrow> wf_stack stk \<and> (\<forall>kind. active_count stk kind \<le> 1)"
proof (induction rule: stack_reachable.induct)
  case (reach_fresh n)
  show ?case using fresh_invariant[of n] by simp
next
  case (reach_setup stk type direction rfd wfd arg transformers w res stk' w' rfd' wfd')
  then show ?case using setup_preserves_invariant by blast
next
  case (reach_teardown stk w stk' w')
  then have "stk' = cleared stk" by (simp add: teardown_wf)
  then show ?case by (simp add: wf_cleared active_count_cleared)
qed

text \<open>
  While a slot holds private data of some kind, a setup call for that kind returns -1 and
  leaves the stack and everything else unchanged; and every stack that a connection can
  have holds at most one slot with private data of each kind.
\<close>

lemma second_setup_refused_when_data_present:
  "(wf_stack stk \<and> bbs_io_transform_active stk type = Inr 1 \<longrightarrow>
      bbs_io_transform_setup stk type direction rfd wfd arg transformers w
        = Inr (- 1, stk, w, rfd, wfd))
   \<and> (stack_reachable stk \<longrightarrow> wf_stack stk \<and> active_count stk kind \<le> 1)"
proof (intro conjI impI)
  assume a: "wf_stack stk \<and> bbs_io_transform_active stk type = Inr 1"
  then have "0 < active_count stk type"
    by (auto simp: active_wf split: if_splits)
  with a show "bbs_io_transform_setup stk type direction rfd wfd arg transformers w
        = Inr (- 1, stk, w, rfd, wfd)"
    by (simp add: bbs_io_transform_setup_def possible_wf)
next
  assume "stack_reachable stk"
  from reachable_invariant[OF this] show "wf_stack stk" "active_count stk kind \<le> 1"
    by simp_all
qed

lemma second_setup_refused_when_data_present_example:
  "wf_stack sample_compressed
   \<and> bbs_io_transform_active sample_compressed TRANSFORM_DEFLATE_COMPRESSION = Inr 1
   \<and> bbs_io_transform_setup sample_compressed TRANSFORM_DEFLATE_COMPRESSION 1 5 6 0
        [sample_tls, sample_deflate] sample_effects
      = Inr (- 1, sample_compressed, sample_effects, 5, 6)
   \<and> stack_reachable sample_compressed
   \<and> active_count sample_compressed TRANSFORM_DEFLATE_COMPRESSION \<le> 1"
proof -
  have wf: "wf_stack sample_compressed"
    by (simp add: wf_stack_def sample_defs)
  have act: "bbs_io_transform_active sample_compressed TRANSFORM_DEFLATE_COMPRESSION = Inr 1"
    by (simp add: sample_defs)
  have "bbs_io_transform_setup (replicate 3 empty_slot) TRANSFORM_DEFLATE_COMPRESSION 1 5 6 0
      [sample_tls, sample_deflate] sample_effects
    = Inr (0, sample_compressed, bbs_module_ref 9 sample_effects, 5, 6)"
    by (simp add: bbs_io_transform_setup_def uu_bbs_io_transform_possible_def
        setup_run_hook_def sample_defs numeral_3_eq_3)
  from reach_setup[OF reach_fresh this] have reach: "stack_reachable sample_compressed" .
  from second_setup_refused_when_data_present[where stk = sample_compressed
      and type = TRANSFORM_DEFLATE_COMPRESSION and direction = 1 and rfd = 5 and wfd = 6
      and arg = 0 and transformers = "[sample_tls, sample_deflate]" and w = sample_effects
      and kind = TRANSFORM_DEFLATE_COMPRESSION] wf act reach
  show ?thesis by simp
qed

text \<open>
  Claim C2. On a stack that already has an active transformation of some kind, a setup
  call for a second transformation of that kind fails, so that a stack never has two of
  one kind. The code at the input that breaks it: on a fresh stack of three slots, with a
  logging transformer whose hook succeeds and leaves the private data \<open>NULL\<close>, the first
  setup of that kind returns 0 and so does the second; the stack then holds two slots of
  the kind and the module is referenced twice.
\<close>

theorem second_setup_of_kind_accepted_without_private_data:
  "bbs_io_transform_setup (replicate 3 empty_slot) TRANSFORM_SESSION_LOGGING 1 5 6 0
       [sample_tls, sample_stateless] sample_effects
     = Inr (0, [\<lparr>tran_data = NULL, tran_transformer = Some sample_stateless\<rparr>,
                empty_slot, empty_slot],
            bbs_module_ref 13 sample_effects, 5, 6)
   \<and> bbs_io_transform_setup
       [\<lparr>tran_data = NULL, tran_transformer = Some sample_stateless\<rparr>, empty_slot, empty_slot]
       TRANSFORM_SESSION_LOGGING 1 5 6 0 [sample_tls, sample_stateless]
       (bbs_module_ref 13 sample_effects)
     = Inr (0, [\<lparr>tran_data = NULL, tran_transformer = Some sample_stateless\<rparr>,
                \<lparr>tran_data = NULL, tran_transformer = Some sample_stateless\<rparr>, empty_slot],
            bbs_module_ref 13 (bbs_module_ref 13 sample_effects), 5, 6)
   \<and> module_refs (bbs_module_ref 13 (bbs_module_ref 13 sample_effects)) 13 = 2"
  by (simp add: eval_defs)

text \<open>
  While a slot holds private data of the compression kind, setup of encryption returns -1
  and changes nothing. On a fresh stack with at least two slots, setup of encryption
  succeeds and then setup of compression succeeds, when the registry holds a transformer
  of each kind for the requested direction and the hook of the first such transformer
  succeeds; the two transformations then fill the first two slots.
\<close>

lemma encryption_refused_when_compression_has_data:
  "(wf_stack stk \<and> bbs_io_transform_active stk TRANSFORM_DEFLATE_COMPRESSION = Inr 1 \<longrightarrow>
      bbs_io_transform_setup stk TRANSFORM_TLS_ENCRYPTION direction rfd wfd arg transformers w
        = Inr (- 1, stk, w, rfd, wfd))
   \<and> (find (\<lambda>t. t_dir t AND direction \<noteq> 0 \<and> t_type t = TRANSFORM_TLS_ENCRYPTION) transformers
         = Some t1
       \<and> t_setup t1 rfd wfd direction arg = (0, data1, rfd1, wfd1)
       \<and> find (\<lambda>t. t_dir t AND direction2 \<noteq> 0 \<and> t_type t = TRANSFORM_DEFLATE_COMPRESSION)
           transformers = Some t2
       \<and> t_setup t2 rfd1 wfd1 direction2 arg2 = (0, data2, rfd2, wfd2) \<longrightarrow>
      bbs_io_transform_setup (replicate (Suc (Suc n)) empty_slot) TRANSFORM_TLS_ENCRYPTION
          direction rfd wfd arg transformers w
        = Inr (0, \<lparr>tran_data = data1, tran_transformer = Some t1\<rparr> # replicate (Suc n) empty_slot,
               bbs_module_ref (t_module t1) w, rfd1, wfd1)
      \<and> bbs_io_transform_setup
          (\<lparr>tran_data = data1, tran_transformer = Some t1\<rparr> # replicate (Suc n) empty_slot)
          TRANSFORM_DEFLATE_COMPRESSION direction2 rfd1 wfd1 arg2 transformers
          (bbs_module_ref (t_module t1) w)
        = Inr (0, \<lparr>tran_data = data1, tran_transformer = Some t1\<rparr>
                  # \<lparr>tran_data = data2, tran_transformer = Some t2\<rparr> # replicate n empty_slot,
               bbs_module_ref (t_module t2) (bbs_module_ref (t_module t1) w), rfd2, wfd2))"
proof (intro conjI impI)
  assume a: "wf_stack stk \<and> bbs_io_transform_active stk TRANSFORM_DEFLATE_COMPRESSION = Inr 1"
  then have "0 < active_count stk TRANSFORM_DEFLATE_COMPRESSION"
    by (auto simp: active_wf split: if_splits)
  with a show "bbs_io_transform_setup stk TRANSFORM_TLS_ENCRYPTION direction rfd wfd arg
      transformers w = Inr (- 1, stk, w, rfd, wfd)"
    by (simp add: bbs_io_transform_setup_def possible_wf)
next
  assume a: "find (\<lambda>t. t_dir t AND direction \<noteq> 0 \<and> t_type t = TRANSFORM_TLS_ENCRYPTION) transformers
         = Some t1
       \<and> t_setup t1 rfd wfd direction arg = (0, data1, rfd1, wfd1)
       \<and> find (\<lambda>t. t_dir t AND direction2 \<noteq> 0 \<and> t_type t = TRANSFORM_DEFLATE_COMPRESSION)
           transformers = Some t2
       \<and> t_setup t2 rfd1 wfd1 direction2 arg2 = (0, data2, rfd2, wfd2)"
  have fresh: "uu_bbs_io_transform_possible (replicate (Suc (Suc n)) empty_slot) type 1 = Inr 1"
    for type
    using fresh_invariant[of "Suc (Suc n)"]
    by (simp add: possible_wf del: replicate.simps)
  show "bbs_io_transform_setup (replicate (Suc (Suc n)) empty_slot) TRANSFORM_TLS_ENCRYPTION
          direction rfd wfd arg transformers w
        = Inr (0, \<lparr>tran_data = data1, tran_transformer = Some t1\<rparr> # replicate (Suc n) empty_slot,
               bbs_module_ref (t_module t1) w, rfd1, wfd1)"
    using a by (simp add: bbs_io_transform_setup_def fresh del: replicate.simps)
       (simp add: setup_run_hook_def empty_slot_def)
  from find_SomeD[of _ transformers t1] a have ty1: "t_type t1 = TRANSFORM_TLS_ENCRYPTION"
    by blast
  have "uu_bbs_io_transform_possible
          (\<lparr>tran_data = data1, tran_transformer = Some t1\<rparr> # replicate (Suc n) empty_slot)
          TRANSFORM_DEFLATE_COMPRESSION 1 = Inr 1"
    using fresh_invariant[of "Suc n"] ty1
    by (subst possible_wf)
       (simp_all add: wf_stack_Cons active_count_Cons slot_kind_new del: replicate.simps)
  then show "bbs_io_transform_setup
          (\<lparr>tran_data = data1, tran_transformer = Some t1\<rparr> # replicate (Suc n) empty_slot)
          TRANSFORM_DEFLATE_COMPRESSION direction2 rfd1 wfd1 arg2 transformers
          (bbs_module_ref (t_module t1) w)
        = Inr (0, \<lparr>tran_data = data1, tran_transformer = Some t1\<rparr>
                  # \<lparr>tran_data = data2, tran_transformer = Some t2\<rparr> # replicate n empty_slot,
               bbs_module_ref (t_module t2) (bbs_module_ref (t_module t1) w), rfd2, wfd2)"
    using a by (simp add: bbs_io_transform_setup_def setup_run_hook_def empty_slot_def)
qed

lemma encryption_refused_when_compression_has_data_example:
  "wf_stack sample_compressed
   \<and> bbs_io_transform_active sample_compressed TRANSFORM_DEFLATE_COMPRESSION = Inr 1
   \<and> bbs_io_transform_setup sample_compressed TRANSFORM_TLS_ENCRYPTION 1 5 6 0
        [sample_tls, sample_deflate] sample_effects
      = Inr (- 1, sample_compressed, sample_effects, 5, 6)
   \<and> bbs_io_transform_setup (replicate 3 empty_slot) TRANSFORM_TLS_ENCRYPTION 1 5 6 0
        [sample_tls, sample_deflate] sample_effects
      = Inr (0, [\<lparr>tran_data = 4096, tran_transformer = Some sample_tls\<rparr>, empty_slot, empty_slot],
             bbs_module_ref 7 sample_effects, 5, 6)
   \<and> bbs_io_transform_setup
        [\<lparr>tran_data = 4096, tran_transformer = Some sample_tls\<rparr>, empty_slot, empty_slot]
        TRANSFORM_DEFLATE_COMPRESSION 2 5 6 0 [sample_tls, sample_deflate]
        (bbs_module_ref 7 sample_effects)
      = Inr (0, [\<lparr>tran_data = 4096, tran_transformer = Some sample_tls\<rparr>,
                 \<lparr>tran_data = 4096, tran_transformer = Some sample_deflate\<rparr>, empty_slot],
             bbs_module_ref 9 (bbs_module_ref 7 sample_effects), 5, 6)"
proof -
  have wf: "wf_stack sample_compressed"
    by (simp add: wf_stack_def sample_defs)
  have act: "bbs_io_transform_active sample_compressed TRANSFORM_DEFLATE_COMPRESSION = Inr 1"
    by (simp add: sample_defs)
  have f1: "find (\<lambda>t. t_dir t AND 1 \<noteq> 0 \<and> t_type t = TRANSFORM_TLS_ENCRYPTION)
      [sample_tls, sample_deflate] = Some sample_tls"
    by (simp add: sample_tls_def)
  have h1: "t_setup sample_tls 5 6 1 0 = (0, 4096, 5, 6)"
    by (simp add: sample_tls_def sample_setup_def)
  have f2: "find (\<lambda>t. t_dir t AND 2 \<noteq> 0 \<and> t_type t = TRANSFORM_DEFLATE_COMPRESSION)
      [sample_tls, sample_deflate] = Some sample_deflate"
    by (simp add: sample_tls_def sample_deflate_def)
  have h2: "t_setup sample_deflate 5 6 2 0 = (0, 4096, 5, 6)"
    by (simp add: sample_deflate_def sample_setup_def)
  have m: "t_module sample_tls = 7" "t_module sample_deflate = 9"
    by (simp_all add: sample_tls_def sample_deflate_def)
  note T = encryption_refused_when_compression_has_data[where stk = sample_compressed
      and direction = 1 and rfd = 5 and wfd = 6 and arg = 0
      and transformers = "[sample_tls, sample_deflate]" and w = sample_effects
      and ?t1.0 = sample_tls and ?data1.0 = 4096 and ?rfd1.0 = 5 and ?wfd1.0 = 6
      and ?direction2.0 = 2 and ?arg2.0 = 0
      and ?t2.0 = sample_deflate and ?data2.0 = 4096 and ?rfd2.0 = 5 and ?wfd2.0 = 6
      and n = 1]
  have refused: "bbs_io_transform_setup sample_compressed TRANSFORM_TLS_ENCRYPTION 1 5 6 0
        [sample_tls, sample_deflate] sample_effects
      = Inr (- 1, sample_compressed, sample_effects, 5, 6)"
    using T wf act by blast
  have both: "bbs_io_transform_setup (replicate (Suc (Suc 1)) empty_slot)
          TRANSFORM_TLS_ENCRYPTION 1 5 6 0 [sample_tls, sample_deflate] sample_effects
        = Inr (0, \<lparr>tran_data = 4096, tran_transformer = Some sample_tls\<rparr>
                  # replicate (Suc 1) empty_slot,
               bbs_module_ref (t_module sample_tls) sample_effects, 5, 6)
      \<and> bbs_io_transform_setup
          (\<lparr>tran_data = 4096, tran_transformer = Some sample_tls\<rparr> # replicate (Suc 1) empty_slot)
          TRANSFORM_DEFLATE_COMPRESSION 2 5 6 0 [sample_tls, sample_deflate]
          (bbs_module_ref (t_module sample_tls) sample_effects)
        = Inr (0, \<lparr>tran_data = 4096, tran_transformer = Some sample_tls\<rparr>
                  # \<lparr>tran_data = 4096, tran_transformer = Some sample_deflate\<rparr>
                  # replicate 1 empty_slot,
               bbs_module_ref (t_module sample_deflate)
                 (bbs_module_ref (t_module sample_tls) sample_effects), 5, 6)"
    using T f1 h1 f2 h2 by blast
  have three: "replicate 3 empty_slot = replicate (Suc (Suc 1)) empty_slot"
    by (simp add: numeral_3_eq_3)
  from wf act refused both show ?thesis
    unfolding three m by simp
qed

text \<open>
  Claim C1. Setup of encryption while compression is already active on the stack fails
  and leaves the stack unchanged; on a fresh stack encryption and then compression both
  succeed. The code at the input that breaks the first part: on a fresh stack of three
  slots, with a compression transformer whose hook succeeds and leaves the private data
  \<open>NULL\<close>, setup of compression returns 0 and fills the first slot, and the setup of
  encryption that follows returns 0 as well and stores encryption after it.
\<close>

theorem encryption_accepted_after_compression_without_private_data:
  "bbs_io_transform_setup (replicate 3 empty_slot) TRANSFORM_DEFLATE_COMPRESSION 1 5 6 0
       [sample_tls, sample_stateless_deflate] sample_effects
     = Inr (0, [\<lparr>tran_data = NULL, tran_transformer = Some sample_stateless_deflate\<rparr>,
                empty_slot, empty_slot],
            bbs_module_ref 15 sample_effects, 5, 6)
   \<and> bbs_io_transform_setup
       [\<lparr>tran_data = NULL, tran_transformer = Some sample_stateless_deflate\<rparr>,
        empty_slot, empty_slot]
       TRANSFORM_TLS_ENCRYPTION 1 5 6 0 [sample_tls, sample_stateless_deflate]
       (bbs_module_ref 15 sample_effects)
     = Inr (0, [\<lparr>tran_data = NULL, tran_transformer = Some sample_stateless_deflate\<rparr>,
                \<lparr>tran_data = 4096, tran_transformer = Some sample_tls\<rparr>, empty_slot],
            bbs_module_ref 7 (bbs_module_ref 15 sample_effects), 5, 6)"
  by (simp add: eval_defs)

lemma slots_free_iff:
  "io_transform_slots_free stk = (if occupied_slots stk = stk then 0 else 1)"
proof (induction stk)
  case Nil
  show ?case by (simp add: occupied_slots_def)
next
  case (Cons tran stk)
  have "length (filter P stk) \<le> length stk" for P :: "bbs_io_transformation \<Rightarrow> bool"
    by simp
  then have short: "filter P stk \<noteq> tran # stk" for P :: "bbs_io_transformation \<Rightarrow> bool"
    by (metis impossible_Cons)
  show ?case
    using Cons.IH by (simp add: occupied_slots_def short)
qed

text \<open>
  Claim C5, as it stands: every failure other than the failure to store returns a
  negative value. A setup hook that reports its failure with the status 1 makes the call
  return 1, on a stack with free slots, with nothing stored and no cleanup call.
\<close>

theorem setup_returns_positive_hook_status:
  "io_transform_slots_free (replicate 3 empty_slot) = 1
   \<and> bbs_io_transform_setup (replicate 3 empty_slot) TRANSFORM_SESSION_LOGGING 1 5 6 0
        [sample_tls, sample_logger] sample_effects
      = Inr (1, replicate 3 empty_slot, sample_effects, 5, 6)"
  by (simp add: bbs_io_transform_setup_def uu_bbs_io_transform_possible_def setup_run_hook_def
      empty_slot_def sample_tls_def sample_logger_def sample_declining_setup_def
      numeral_3_eq_3)

text \<open>
  Claim C5, amended. In the part of the setup operation that runs from the call of the
  hook on, on the stack as it is when the hook returns: when the hook succeeds and no
  slot is free to store the private data, the cleanup hook is called at once on the
  transformer and that data, no reference count changes, the stack is unchanged and the
  result is 1; when the hook succeeds and a slot is free, the data is stored, the
  module's count rises by exactly one and the result is 0; when the hook fails, its
  status is the result and nothing else changes. A whole setup call on a well-formed
  stack returns -1 and changes nothing when the kind is already active, when encryption
  is asked for while compression is active, when no slot is free or when no registered
  transformer has the kind and the direction. Otherwise it calls the hook of the first
  such transformer: a non-zero status of the hook is returned as it is (so it is negative
  only if the hook reports failures so) with nothing else changed, and on status 0 the
  data is stored, the module's count rises by exactly one and the result is 0. So a whole
  call on a well-formed stack, run alone, never fails to store: it makes no cleanup call.
\<close>

theorem setup_hook_and_store_outcomes:
  "(t_setup t rfd wfd direction arg = (0, data, rfd', wfd') \<and> io_transform_slots_free stk = 0 \<longrightarrow>
      setup_run_hook stk t direction rfd wfd arg w =
        (1, stk,
         w\<lparr>cleanup_calls := cleanup_calls w @ [\<lparr>tran_data = data, tran_transformer = Some t\<rparr>]\<rparr>,
         rfd', wfd'))
   \<and> (t_setup t rfd wfd direction arg = (0, data, rfd', wfd') \<and> io_transform_slots_free stk \<noteq> 0 \<longrightarrow>
      (\<exists>stk'. io_transform_store stk t data = (0, stk')
         \<and> setup_run_hook stk t direction rfd wfd arg w =
             (0, stk',
              w\<lparr>module_refs := (module_refs w)(t_module t := module_refs w (t_module t) + 1)\<rparr>,
              rfd', wfd')))
   \<and> (t_setup t rfd wfd direction arg = (hres, data, rfd', wfd') \<and> hres \<noteq> 0 \<longrightarrow>
      setup_run_hook stk t direction rfd wfd arg w = (hres, stk, w, rfd', wfd'))
   \<and> (wf_stack stk
       \<and> (0 < active_count stk type
          \<or> type = TRANSFORM_TLS_ENCRYPTION \<and> 0 < active_count stk TRANSFORM_DEFLATE_COMPRESSION
          \<or> occupied_slots stk = stk
          \<or> \<not> list_ex (\<lambda>t. t_dir t AND direction \<noteq> 0 \<and> t_type t = type) transformers) \<longrightarrow>
      bbs_io_transform_setup stk type direction rfd wfd arg transformers w
        = Inr (- 1, stk, w, rfd, wfd))
   \<and> (wf_stack stk
       \<and> active_count stk type = 0
       \<and> \<not> (type = TRANSFORM_TLS_ENCRYPTION \<and> 0 < active_count stk TRANSFORM_DEFLATE_COMPRESSION)
       \<and> occupied_slots stk \<noteq> stk
       \<and> find (\<lambda>t. t_dir t AND direction \<noteq> 0 \<and> t_type t = type) transformers = Some t
       \<and> t_setup t rfd wfd direction arg = (hres, data, rfd', wfd') \<longrightarrow>
      (hres \<noteq> 0 \<longrightarrow>
         bbs_io_transform_setup stk type direction rfd wfd arg transformers w
           = Inr (hres, stk, w, rfd', wfd'))
      \<and> (hres = 0 \<longrightarrow>
         (\<exists>stk'. io_transform_store stk t data = (0, stk')
            \<and> bbs_io_transform_setup stk type direction rfd wfd arg transformers w
                = Inr (0, stk',
                       w\<lparr>module_refs :=
                            (module_refs w)(t_module t := module_refs w (t_module t) + 1)\<rparr>,
                       rfd', wfd'))))
   \<and> (wf_stack stk
       \<and> bbs_io_transform_setup stk type direction rfd wfd arg transformers w
            = Inr (res, stk2, w2, rfd2, wfd2) \<longrightarrow>
      cleanup_calls w2 = cleanup_calls w)"
proof (intro conjI impI)
  assume a: "t_setup t rfd wfd direction arg = (0, data, rfd', wfd') \<and> io_transform_slots_free stk = 0"
  obtain r s where st: "io_transform_store stk t data = (r, s)"
    by (cases "io_transform_store stk t data")
  from store_cases[OF st] a have "r = - 1 \<and> s = stk" by auto
  with a st show "setup_run_hook stk t direction rfd wfd arg w =
        (1, stk,
         w\<lparr>cleanup_calls := cleanup_calls w @ [\<lparr>tran_data = data, tran_transformer = Some t\<rparr>]\<rparr>,
         rfd', wfd')"
    by (simp add: setup_run_hook_def run_cleanup_def)
next
  assume a: "t_setup t rfd wfd direction arg = (0, data, rfd', wfd') \<and> io_transform_slots_free stk \<noteq> 0"
  obtain r s where st: "io_transform_store stk t data = (r, s)"
    by (cases "io_transform_store stk t data")
  from store_cases[OF st] a have "r = 0" by auto
  with a st show "\<exists>stk'. io_transform_store stk t data = (0, stk')
         \<and> setup_run_hook stk t direction rfd wfd arg w =
             (0, stk',
              w\<lparr>module_refs := (module_refs w)(t_module t := module_refs w (t_module t) + 1)\<rparr>,
              rfd', wfd')"
    by (simp add: setup_run_hook_def bbs_module_ref_def)
next
  assume "t_setup t rfd wfd direction arg = (hres, data, rfd', wfd') \<and> hres \<noteq> 0"
  then show "setup_run_hook stk t direction rfd wfd arg w = (hres, stk, w, rfd', wfd')"
    by (simp add: setup_run_hook_def)
next
  assume a: "wf_stack stk
       \<and> (0 < active_count stk type
          \<or> type = TRANSFORM_TLS_ENCRYPTION \<and> 0 < active_count stk TRANSFORM_DEFLATE_COMPRESSION
          \<or> occupied_slots stk = stk
          \<or> \<not> list_ex (\<lambda>t. t_dir t AND direction \<noteq> 0 \<and> t_type t = type) transformers)"
  then have wf: "wf_stack stk" by simp
  from a show "bbs_io_transform_setup stk type direction rfd wfd arg transformers w
        = Inr (- 1, stk, w, rfd, wfd)"
    using find_None_list_ex[of "\<lambda>t. t_dir t AND direction \<noteq> 0 \<and> t_type t = type" transformers]
    by (auto simp: bbs_io_transform_setup_def possible_wf[OF wf] slots_free_iff
        split: option.splits)
next
  assume a: "wf_stack stk
       \<and> active_count stk type = 0
       \<and> \<not> (type = TRANSFORM_TLS_ENCRYPTION \<and> 0 < active_count stk TRANSFORM_DEFLATE_COMPRESSION)
       \<and> occupied_slots stk \<noteq> stk
       \<and> find (\<lambda>t. t_dir t AND direction \<noteq> 0 \<and> t_type t = type) transformers = Some t
       \<and> t_setup t rfd wfd direction arg = (hres, data, rfd', wfd')"
  then have wf: "wf_stack stk" by simp
  from a have run: "bbs_io_transform_setup stk type direction rfd wfd arg transformers w
      = Inr (setup_run_hook stk t direction rfd wfd arg w)"
    by (auto simp: bbs_io_transform_setup_def possible_wf[OF wf] slots_free_iff)
  from a have free: "io_transform_slots_free stk \<noteq> 0"
    by (simp add: slots_free_iff)
  obtain r s where st: "io_transform_store stk t data = (r, s)"
    by (cases "io_transform_store stk t data")
  from store_cases[OF st] free have r: "r = 0" by auto
  {
    assume "hres \<noteq> 0"
    with a show "bbs_io_transform_setup stk type direction rfd wfd arg transformers w
           = Inr (hres, stk, w, rfd', wfd')"
      by (simp add: run setup_run_hook_def)
  }
  {
    assume "hres = 0"
    with a st r show "\<exists>stk'. io_transform_store stk t data = (0, stk')
            \<and> bbs_io_transform_setup stk type direction rfd wfd arg transformers w
                = Inr (0, stk',
                       w\<lparr>module_refs :=
                            (module_refs w)(t_module t := module_refs w (t_module t) + 1)\<rparr>,
                       rfd', wfd')"
      by (simp add: run setup_run_hook_def bbs_module_ref_def)
  }
next
  assume a: "wf_stack stk
       \<and> bbs_io_transform_setup stk type direction rfd wfd arg transformers w
            = Inr (res, stk2, w2, rfd2, wfd2)"
  then have wf: "wf_stack stk"
    and run: "bbs_io_transform_setup stk type direction rfd wfd arg transformers w
            = Inr (res, stk2, w2, rfd2, wfd2)"
    by simp_all
  from setup_cases[OF wf run] show "cleanup_calls w2 = cleanup_calls w"
    by (auto simp: bbs_module_ref_def)
qed

theorem setup_hook_and_store_outcomes_witness:
  "setup_run_hook sample_full sample_tls 1 5 6 0 sample_effects
     = (1, sample_full,
        sample_effects\<lparr>cleanup_calls := [\<lparr>tran_data = 4096, tran_transformer = Some sample_tls\<rparr>]\<rparr>,
        5, 6)
   \<and> setup_run_hook sample_compressed sample_tls 1 5 6 0 sample_effects
     = (0, [\<lparr>tran_data = 4096, tran_transformer = Some sample_deflate\<rparr>,
            \<lparr>tran_data = 4096, tran_transformer = Some sample_tls\<rparr>, empty_slot],
        sample_effects\<lparr>module_refs := (\<lambda>m. 0)(7 := 1)\<rparr>, 5, 6)
   \<and> setup_run_hook sample_compressed sample_logger 1 5 6 0 sample_effects
     = (1, sample_compressed, sample_effects, 5, 6)
   \<and> bbs_io_transform_setup sample_compressed TRANSFORM_DEFLATE_COMPRESSION 1 5 6 0
        [sample_tls, sample_deflate] sample_effects
     = Inr (- 1, sample_compressed, sample_effects, 5, 6)
   \<and> bbs_io_transform_setup sample_full TRANSFORM_SESSION_LOGGING 1 5 6 0
        [sample_tls, sample_logger] sample_effects
     = Inr (- 1, sample_full, sample_effects, 5, 6)
   \<and> bbs_io_transform_setup [empty_slot, empty_slot] TRANSFORM_SESSION_LOGGING 1 5 6 0
        [sample_tls, sample_deflate] sample_effects
     = Inr (- 1, [empty_slot, empty_slot], sample_effects, 5, 6)
   \<and> bbs_io_transform_setup [empty_slot, empty_slot] TRANSFORM_SESSION_LOGGING 1 5 6 0
        [sample_tls, sample_logger] sample_effects
     = Inr (1, [empty_slot, empty_slot], sample_effects, 5, 6)
   \<and> bbs_io_transform_setup [empty_slot, empty_slot] TRANSFORM_TLS_ENCRYPTION 1 5 6 0
        [sample_tls, sample_deflate] sample_effects
     = Inr (0, [\<lparr>tran_data = 4096, tran_transformer = Some sample_tls\<rparr>, empty_slot],
            sample_effects\<lparr>module_refs := (\<lambda>m. 0)(7 := 1)\<rparr>, 5, 6)
   \<and> cleanup_calls (sample_effects\<lparr>module_refs := (\<lambda>m. 0)(7 := 1)\<rparr>)
       = cleanup_calls sample_effects"
proof -
  have h1: "t_setup sample_tls 5 6 1 0 = (0, 4096, 5, 6)"
    by (simp add: sample_tls_def sample_setup_def)
  have h3: "t_setup sample_logger 5 6 1 0 = (1, NULL, 5, 6)"
    by (simp add: sample_logger_def sample_declining_setup_def)
  have full: "io_transform_slots_free sample_full = 0"
    by (simp add: sample_defs)
  have free: "io_transform_slots_free sample_compressed \<noteq> 0"
    by (simp add: sample_defs)
  have st: "io_transform_store sample_compressed sample_tls 4096
     = (0, [\<lparr>tran_data = 4096, tran_transformer = Some sample_deflate\<rparr>,
            \<lparr>tran_data = 4096, tran_transformer = Some sample_tls\<rparr>, empty_slot])"
    by (simp add: sample_compressed_def sample_deflate_def empty_slot_def)
  have st2: "io_transform_store [empty_slot, empty_slot] sample_tls 4096
     = (0, [\<lparr>tran_data = 4096, tran_transformer = Some sample_tls\<rparr>, empty_slot])"
    by (simp add: empty_slot_def)
  have wfc: "wf_stack sample_compressed" and wff: "wf_stack sample_full"
    and wfe: "wf_stack [empty_slot, empty_slot]"
    by (simp_all add: wf_stack_def sample_defs)
  have act: "0 < active_count sample_compressed TRANSFORM_DEFLATE_COMPRESSION"
    by (simp add: active_count_def slot_kind_def sample_defs)
  have occ: "occupied_slots sample_full = sample_full"
    by (simp add: occupied_slots_def sample_defs)
  have nolog: "\<not> list_ex (\<lambda>t. t_dir t AND 1 \<noteq> 0 \<and> t_type t = TRANSFORM_SESSION_LOGGING)
      [sample_tls, sample_deflate]"
    by (simp add: sample_tls_def sample_deflate_def)
  have e_log: "active_count [empty_slot, empty_slot] TRANSFORM_SESSION_LOGGING = 0"
    and e_tls: "active_count [empty_slot, empty_slot] TRANSFORM_TLS_ENCRYPTION = 0"
    and e_def: "\<not> 0 < active_count [empty_slot, empty_slot] TRANSFORM_DEFLATE_COMPRESSION"
    and e_occ: "occupied_slots [empty_slot, empty_slot] \<noteq> [empty_slot, empty_slot]"
    by (simp_all add: active_count_def slot_kind_def occupied_slots_def empty_slot_def)
  have f_log: "find (\<lambda>t. t_dir t AND 1 \<noteq> 0 \<and> t_type t = TRANSFORM_SESSION_LOGGING)
      [sample_tls, sample_logger] = Some sample_logger"
    by (simp add: sample_tls_def sample_logger_def)
  have f_tls: "find (\<lambda>t. t_dir t AND 1 \<noteq> 0 \<and> t_type t = TRANSFORM_TLS_ENCRYPTION)
      [sample_tls, sample_deflate] = Some sample_tls"
    by (simp add: sample_tls_def)
  have m: "(module_refs sample_effects)(t_module sample_tls :=
              module_refs sample_effects (t_module sample_tls) + 1) = (\<lambda>m. 0)(7 := 1)"
    by (simp add: sample_effects_def sample_tls_def)
  have c0: "cleanup_calls sample_effects @ [\<lparr>tran_data = 4096, tran_transformer = Some sample_tls\<rparr>]
      = [\<lparr>tran_data = 4096, tran_transformer = Some sample_tls\<rparr>]"
    by (simp add: sample_effects_def)
  have a: "setup_run_hook sample_full sample_tls 1 5 6 0 sample_effects
     = (1, sample_full,
        sample_effects\<lparr>cleanup_calls := cleanup_calls sample_effects
            @ [\<lparr>tran_data = 4096, tran_transformer = Some sample_tls\<rparr>]\<rparr>, 5, 6)"
    using setup_hook_and_store_outcomes[where t = sample_tls and rfd = 5 and wfd = 6
      and direction = 1 and arg = 0 and data = 4096 and rfd' = 5 and wfd' = 6
      and stk = sample_full and w = sample_effects and res = 0
      and ?stk2.0 = "[]" and ?w2.0 = sample_effects and ?rfd2.0 = 0 and ?wfd2.0 = 0] h1 full
    by blast
  have "\<exists>stk'. io_transform_store sample_compressed sample_tls 4096 = (0, stk')
         \<and> setup_run_hook sample_compressed sample_tls 1 5 6 0 sample_effects =
             (0, stk', sample_effects\<lparr>module_refs := (module_refs sample_effects)
                (t_module sample_tls := module_refs sample_effects (t_module sample_tls) + 1)\<rparr>,
              5, 6)"
    using setup_hook_and_store_outcomes[where t = sample_tls and rfd = 5 and wfd = 6
      and direction = 1 and arg = 0 and data = 4096 and rfd' = 5 and wfd' = 6
      and stk = sample_compressed and w = sample_effects and res = 0
      and ?stk2.0 = "[]" and ?w2.0 = sample_effects and ?rfd2.0 = 0 and ?wfd2.0 = 0] h1 free
    by blast
  then have b: "setup_run_hook sample_compressed sample_tls 1 5 6 0 sample_effects
     = (0, [\<lparr>tran_data = 4096, tran_transformer = Some sample_deflate\<rparr>,
            \<lparr>tran_data = 4096, tran_transformer = Some sample_tls\<rparr>, empty_slot],
        sample_effects\<lparr>module_refs := (\<lambda>m. 0)(7 := 1)\<rparr>, 5, 6)"
    unfolding m st by simp
  have c: "setup_run_hook sample_compressed sample_logger 1 5 6 0 sample_effects
     = (1, sample_compressed, sample_effects, 5, 6)"
    using setup_hook_and_store_outcomes[where t = sample_logger and rfd = 5 and wfd = 6
      and direction = 1 and arg = 0 and data = NULL and rfd' = 5 and wfd' = 6
      and stk = sample_compressed and w = sample_effects and hres = 1] h3
    by simp
  have d1: "bbs_io_transform_setup sample_compressed TRANSFORM_DEFLATE_COMPRESSION 1 5 6 0
        [sample_tls, sample_deflate] sample_effects
     = Inr (- 1, sample_compressed, sample_effects, 5, 6)"
    using setup_hook_and_store_outcomes[where stk = sample_compressed and type = TRANSFORM_DEFLATE_COMPRESSION
      and direction = 1 and rfd = 5 and wfd = 6 and arg = 0
      and transformers = "[sample_tls, sample_deflate]" and w = sample_effects and res = 0
      and ?stk2.0 = "[]" and ?w2.0 = sample_effects and ?rfd2.0 = 0 and ?wfd2.0 = 0] wfc act
    by blast
  have d2: "bbs_io_transform_setup sample_full TRANSFORM_SESSION_LOGGING 1 5 6 0
        [sample_tls, sample_logger] sample_effects
     = Inr (- 1, sample_full, sample_effects, 5, 6)"
    using setup_hook_and_store_outcomes[where stk = sample_full and type = TRANSFORM_SESSION_LOGGING
      and direction = 1 and rfd = 5 and wfd = 6 and arg = 0
      and transformers = "[sample_tls, sample_logger]" and w = sample_effects and res = 0
      and ?stk2.0 = "[]" and ?w2.0 = sample_effects and ?rfd2.0 = 0 and ?wfd2.0 = 0] wff occ
    by blast
  have d3: "bbs_io_transform_setup [empty_slot, empty_slot] TRANSFORM_SESSION_LOGGING 1 5 6 0
        [sample_tls, sample_deflate] sample_effects
     = Inr (- 1, [empty_slot, empty_slot], sample_effects, 5, 6)"
    using setup_hook_and_store_outcomes[where stk = "[empty_slot, empty_slot]" and type = TRANSFORM_SESSION_LOGGING
      and direction = 1 and rfd = 5 and wfd = 6 and arg = 0
      and transformers = "[sample_tls, sample_deflate]" and w = sample_effects and res = 0
      and ?stk2.0 = "[]" and ?w2.0 = sample_effects and ?rfd2.0 = 0 and ?wfd2.0 = 0] wfe nolog
    by blast
  have e1: "bbs_io_transform_setup [empty_slot, empty_slot] TRANSFORM_SESSION_LOGGING 1 5 6 0
        [sample_tls, sample_logger] sample_effects
     = Inr (1, [empty_slot, empty_slot], sample_effects, 5, 6)"
    using setup_hook_and_store_outcomes[where stk = "[empty_slot, empty_slot]" and type = TRANSFORM_SESSION_LOGGING
      and direction = 1 and rfd = 5 and wfd = 6 and arg = 0 and t = sample_logger
      and hres = 1 and data = NULL and rfd' = 5 and wfd' = 6
      and transformers = "[sample_tls, sample_logger]" and w = sample_effects and res = 0
      and ?stk2.0 = "[]" and ?w2.0 = sample_effects and ?rfd2.0 = 0 and ?wfd2.0 = 0]
      wfe e_log e_occ f_log h3
    by simp
  have "\<exists>stk'. io_transform_store [empty_slot, empty_slot] sample_tls 4096 = (0, stk')
      \<and> bbs_io_transform_setup [empty_slot, empty_slot] TRANSFORM_TLS_ENCRYPTION 1 5 6 0
           [sample_tls, sample_deflate] sample_effects
         = Inr (0, stk', sample_effects\<lparr>module_refs := (module_refs sample_effects)
                (t_module sample_tls := module_refs sample_effects (t_module sample_tls) + 1)\<rparr>,
              5, 6)"
    using setup_hook_and_store_outcomes[where stk = "[empty_slot, empty_slot]" and type = TRANSFORM_TLS_ENCRYPTION
      and direction = 1 and rfd = 5 and wfd = 6 and arg = 0 and t = sample_tls
      and hres = 0 and data = 4096 and rfd' = 5 and wfd' = 6
      and transformers = "[sample_tls, sample_deflate]" and w = sample_effects and res = 0
      and ?stk2.0 = "[]" and ?w2.0 = sample_effects and ?rfd2.0 = 0 and ?wfd2.0 = 0]
      wfe e_tls e_def e_occ f_tls h1
    by blast
  then have e2: "bbs_io_transform_setup [empty_slot, empty_slot] TRANSFORM_TLS_ENCRYPTION 1 5 6 0
        [sample_tls, sample_deflate] sample_effects
     = Inr (0, [\<lparr>tran_data = 4096, tran_transformer = Some sample_tls\<rparr>, empty_slot],
            sample_effects\<lparr>module_refs := (\<lambda>m. 0)(7 := 1)\<rparr>, 5, 6)"
    unfolding m st2 by simp
  have quiet: "cleanup_calls (sample_effects\<lparr>module_refs := (\<lambda>m. 0)(7 := 1)\<rparr>)
       = cleanup_calls sample_effects"
    using setup_hook_and_store_outcomes[where stk = "[empty_slot, empty_slot]"
      and type = TRANSFORM_TLS_ENCRYPTION and direction = 1 and rfd = 5 and wfd = 6
      and arg = 0 and transformers = "[sample_tls, sample_deflate]" and w = sample_effects
      and res = 0
      and ?stk2.0 = "[\<lparr>tran_data = 4096, tran_transformer = Some sample_tls\<rparr>, empty_slot]"
      and ?w2.0 = "sample_effects\<lparr>module_refs := (\<lambda>m. 0)(7 := 1)\<rparr>"
      and ?rfd2.0 = 5 and ?wfd2.0 = 6] wfe e2
    by blast
  from a[unfolded c0] b c d1 d2 d3 e1 e2 quiet show ?thesis by blast
qed

section \<open>Transformation stack: slots without private data\<close>

lemma active_ignores_null_data:
  "bbs_io_transform_active stk type = bbs_io_transform_active (active_slots stk) type"
  by (induction stk) (auto simp: active_slots_def split: option.splits)

lemma query_ignores_null_data:
  "bbs_io_transform_query stk type query qdata
     = bbs_io_transform_query (active_slots stk) type query qdata"
  by (induction stk) (auto simp: active_slots_def split: option.splits)

lemma query_inactive:
  "wf_stack stk \<Longrightarrow> active_count stk type = 0 \<Longrightarrow>
   bbs_io_transform_query stk type query qdata = Inr (- 1)"
proof (induction stk)
  case Nil
  show ?case by simp
next
  case (Cons tran stk)
  then have IH: "bbs_io_transform_query stk type query qdata = Inr (- 1)"
    and k: "slot_kind tran \<noteq> Some type"
    and wf: "tran_data tran \<noteq> NULL \<longrightarrow> tran_transformer tran \<noteq> None"
    by (simp_all add: wf_stack_Cons active_count_Cons split: if_splits)
  show ?case
  proof (cases "tran_data tran = NULL")
    case True
    then show ?thesis by (simp add: IH)
  next
    case False
    with wf obtain t where t: "tran_transformer tran = Some t" by auto
    with False k have "t_type t \<noteq> type" by (simp add: slot_kind_def)
    with False t show ?thesis by (simp add: IH)
  qed
qed

lemma store_occupied:
  "io_transform_store stk t data = (0, stk') \<Longrightarrow>
   length (occupied_slots stk') = Suc (length (occupied_slots stk))"
proof (induction stk arbitrary: stk')
  case Nil
  then show ?case by simp
next
  case (Cons tran stk)
  show ?case
  proof (cases "tran_transformer tran = None")
    case True
    with Cons.prems show ?thesis by (auto simp: occupied_slots_def)
  next
    case False
    with Cons.prems obtain rest' where
      rest: "io_transform_store stk t data = (0, rest')" and stk': "stk' = tran # rest'"
      by (auto split: prod.splits)
    from Cons.IH[OF rest] stk' False show ?thesis
      by (simp add: occupied_slots_def)
  qed
qed

lemma store_null_active_slots:
  "wf_stack stk \<Longrightarrow> io_transform_store stk t NULL = (0, stk') \<Longrightarrow>
   active_slots stk' = active_slots stk"
proof (induction stk arbitrary: stk')
  case Nil
  then show ?case by simp
next
  case (Cons tran stk)
  show ?case
  proof (cases "tran_transformer tran = None")
    case True
    with Cons.prems show ?thesis by (auto simp: active_slots_def wf_stack_Cons)
  next
    case False
    with Cons.prems obtain rest' where
      rest: "io_transform_store stk t NULL = (0, rest')" and stk': "stk' = tran # rest'"
      by (auto split: prod.splits)
    from Cons.prems(1) have "wf_stack stk" by (simp add: wf_stack_Cons)
    from Cons.IH[OF this rest] stk' show ?thesis
      by (simp add: active_slots_def)
  qed
qed

lemma store_member:
  "io_transform_store stk t data = (0, stk') \<Longrightarrow>
   \<lparr>tran_data = data, tran_transformer = Some t\<rparr> \<in> set stk'"
proof (induction stk arbitrary: stk')
  case Nil
  then show ?case by simp
next
  case (Cons tran stk)
  show ?case
  proof (cases "tran_transformer tran = None")
    case True
    with Cons.prems show ?thesis by auto
  next
    case False
    with Cons.prems obtain rest' where
      rest: "io_transform_store stk t data = (0, rest')" and stk': "stk' = tran # rest'"
      by (auto split: prod.splits)
    from Cons.IH[OF rest] stk' show ?thesis by simp
  qed
qed

lemma cleared_keeps_null_data:
  "tran \<in> set stk \<Longrightarrow> tran_data tran = NULL \<Longrightarrow> tran \<in> set (cleared stk)"
  by (force simp: cleared_def)

text \<open>
  Claim C10. The activity test, the query and the teardown look only at the slots whose
  private data is not \<open>NULL\<close>, the free-slot test only at the transformer pointer. So
  after a setup call that succeeded with a hook that left the private data \<open>NULL\<close>, one
  more slot is taken, yet the kind is reported inactive, a query for it returns -1, and
  teardown_all calls the cleanup hooks of the other active slots only and leaves the
  slot as it is.
\<close>

theorem null_private_data_slot_is_invisible:
  assumes wf: "wf_stack stk"
    and run: "bbs_io_transform_setup stk type direction rfd wfd arg transformers w
                = Inr (0, stk', w', rfd', wfd')"
    and t: "find (\<lambda>t. t_dir t AND direction \<noteq> 0 \<and> t_type t = type) transformers = Some t"
    and null: "fst (snd (t_setup t rfd wfd direction arg)) = NULL"
  shows "bbs_io_transform_active s kind = bbs_io_transform_active (active_slots s) kind
    \<and> bbs_io_transform_query s kind query qdata
          = bbs_io_transform_query (active_slots s) kind query qdata
    \<and> io_transform_slots_free s = (if occupied_slots s = s then 0 else 1)
    \<and> length (occupied_slots stk') = Suc (length (occupied_slots stk))
    \<and> bbs_io_transform_active stk' type = Inr 0
    \<and> bbs_io_transform_query stk' type query qdata = Inr (- 1)
    \<and> (\<exists>stk'' w''. bbs_io_teardown_all_transformers stk' w' = Inr (stk'', w'')
          \<and> cleanup_calls w'' = cleanup_calls w' @ active_slots stk
          \<and> \<lparr>tran_data = NULL, tran_transformer = Some t\<rparr> \<notin> set (active_slots stk)
          \<and> \<lparr>tran_data = NULL, tran_transformer = Some t\<rparr> \<in> set stk'')"
proof -
  from setup_cases[OF wf run] t null
  have none: "active_count stk type = 0"
    and st: "io_transform_store stk t NULL = (0, stk')"
    by auto
  have wf': "wf_stack stk'" by (rule store_wf[OF wf st])
  have count': "active_count stk' type = 0"
    using store_count[OF st, of type] none by simp
  have same: "active_slots stk' = active_slots stk"
    by (rule store_null_active_slots[OF wf st])
  have mem: "\<lparr>tran_data = NULL, tran_transformer = Some t\<rparr> \<in> set stk'"
    by (rule store_member[OF st])
  show ?thesis
    using store_occupied[OF st] active_wf[OF wf', of type] count'
      query_inactive[OF wf' count', of query qdata]
      teardown_wf[OF wf', of w'] same cleared_keeps_null_data[OF mem]
      active_ignores_null_data[of s kind] query_ignores_null_data[of s kind query qdata]
      slots_free_iff[of s]
    by (auto simp: active_slots_def)
qed

theorem null_private_data_slot_is_invisible_witness:
  "wf_stack sample_compressed
   \<and> bbs_io_transform_setup sample_compressed TRANSFORM_SESSION_LOGGING 1 5 6 0
        [sample_tls, sample_stateless] sample_effects
      = Inr (0, [\<lparr>tran_data = 4096, tran_transformer = Some sample_deflate\<rparr>,
                 \<lparr>tran_data = NULL, tran_transformer = Some sample_stateless\<rparr>, empty_slot],
             bbs_module_ref 13 sample_effects, 5, 6)
   \<and> length (occupied_slots [\<lparr>tran_data = 4096, tran_transformer = Some sample_deflate\<rparr>,
                 \<lparr>tran_data = NULL, tran_transformer = Some sample_stateless\<rparr>, empty_slot]) = 2
   \<and> bbs_io_transform_active [\<lparr>tran_data = 4096, tran_transformer = Some sample_deflate\<rparr>,
                 \<lparr>tran_data = NULL, tran_transformer = Some sample_stateless\<rparr>, empty_slot]
        TRANSFORM_SESSION_LOGGING = Inr 0
   \<and> bbs_io_transform_query [\<lparr>tran_data = 4096, tran_transformer = Some sample_deflate\<rparr>,
                 \<lparr>tran_data = NULL, tran_transformer = Some sample_stateless\<rparr>, empty_slot]
        TRANSFORM_SESSION_LOGGING 0 0 = Inr (- 1)
   \<and> bbs_io_teardown_all_transformers [\<lparr>tran_data = 4096, tran_transformer = Some sample_deflate\<rparr>,
                 \<lparr>tran_data = NULL, tran_transformer = Some sample_stateless\<rparr>, empty_slot]
        (bbs_module_ref 13 sample_effects)
      = Inr ([empty_slot, \<lparr>tran_data = NULL, tran_transformer = Some sample_stateless\<rparr>, empty_slot],
             \<lparr>cleanup_calls = [\<lparr>tran_data = 4096, tran_transformer = Some sample_deflate\<rparr>],
              module_refs = (\<lambda>m. 0)(13 := 1, 9 := - 1)\<rparr>)"
proof -
  let ?stk' = "[\<lparr>tran_data = 4096, tran_transformer = Some sample_deflate\<rparr>,
                 \<lparr>tran_data = NULL, tran_transformer = Some sample_stateless\<rparr>, empty_slot]"
  have wf: "wf_stack sample_compressed"
    by (simp add: wf_stack_def sample_defs)
  have run: "bbs_io_transform_setup sample_compressed TRANSFORM_SESSION_LOGGING 1 5 6 0
        [sample_tls, sample_stateless] sample_effects
      = Inr (0, ?stk', bbs_module_ref 13 sample_effects, 5, 6)"
    by (simp add: bbs_io_transform_setup_def uu_bbs_io_transform_possible_def
        setup_run_hook_def sample_defs)
  have f: "find (\<lambda>t. t_dir t AND 1 \<noteq> 0 \<and> t_type t = TRANSFORM_SESSION_LOGGING)
      [sample_tls, sample_stateless] = Some sample_stateless"
    by (simp add: sample_tls_def sample_stateless_def)
  have null: "fst (snd (t_setup sample_stateless 5 6 1 0)) = NULL"
    by (simp add: sample_stateless_def sample_stateless_setup_def)
  have occ: "length (occupied_slots sample_compressed) = 1"
    by (simp add: occupied_slots_def sample_defs)
  have td: "bbs_io_teardown_all_transformers ?stk' (bbs_module_ref 13 sample_effects)
      = Inr ([empty_slot, \<lparr>tran_data = NULL, tran_transformer = Some sample_stateless\<rparr>, empty_slot],
             \<lparr>cleanup_calls = [\<lparr>tran_data = 4096, tran_transformer = Some sample_deflate\<rparr>],
              module_refs = (\<lambda>m. 0)(13 := 1, 9 := - 1)\<rparr>)"
    by (simp add: teardown_transformation_def run_cleanup_def bbs_module_unref_def
        bbs_module_ref_def sample_defs)
  note T = null_private_data_slot_is_invisible[OF wf run f null,
      of ?stk' TRANSFORM_SESSION_LOGGING 0 0]
  from T have "length (occupied_slots ?stk') = Suc (length (occupied_slots sample_compressed))"
    by blast
  then have occ': "length (occupied_slots ?stk') = 2"
    by (simp only: occ)
  from T have act: "bbs_io_transform_active ?stk' TRANSFORM_SESSION_LOGGING = Inr 0"
    by blast
  from T have qry: "bbs_io_transform_query ?stk' TRANSFORM_SESSION_LOGGING 0 0 = Inr (- 1)"
    by blast
  from wf run occ' act qry td show ?thesis by blast
qed

section \<open>Delimited reader: failure classes\<close>




end
